theory Spec2Isabelle
  imports Main
begin

section \<open>Python strings\<close>

text \<open>
  A Python \<^verbatim>\<open>str\<close> is modelled as a \<^typ>\<open>string\<close>; each character stands for the
  Unicode code point of the same number (so the model covers the code points below 256).
  The string methods the plugin calls are written out below.
\<close>

definition dquote :: char where
  "dquote = CHR 0x22"

definition backslash :: char where
  "backslash = CHR 0x5C"

definition backtick :: char where
  "backtick = CHR 0x60"

definition newline :: char where
  "newline = CHR 0x0A"

definition tab :: char where
  "tab = CHR 0x09"

text \<open>\<^verbatim>\<open>str.isspace\<close> on one code point below 256: the characters \<^verbatim>\<open>str.strip()\<close> removes.\<close>

definition is_space :: "char \<Rightarrow> bool" where
  "is_space c =
     (let n = (of_char c :: nat)
      in (9 \<le> n \<and> n \<le> 13) \<or> (28 \<le> n \<and> n \<le> 32) \<or> n = 0x85 \<or> n = 0xA0)"

text \<open>The line boundaries of \<^verbatim>\<open>str.splitlines\<close> below 256 (a CR LF pair counts once).\<close>

definition is_linebreak :: "char \<Rightarrow> bool" where
  "is_linebreak c =
     (let n = (of_char c :: nat)
      in (10 \<le> n \<and> n \<le> 13) \<or> (28 \<le> n \<and> n \<le> 30) \<or> n = 0x85)"

text \<open>
  The regular expression class \<^verbatim>\<open>\w\<close> of a \<^verbatim>\<open>str\<close> pattern below 256: the alphanumeric
  code points and the underscore.
\<close>

definition is_word_char :: "char \<Rightarrow> bool" where
  "is_word_char c =
     (let n = (of_char c :: nat)
      in (48 \<le> n \<and> n \<le> 57) \<or> (65 \<le> n \<and> n \<le> 90) \<or> n = 95 \<or> (97 \<le> n \<and> n \<le> 122)
         \<or> n = 0xAA \<or> n = 0xB2 \<or> n = 0xB3 \<or> n = 0xB5 \<or> n = 0xB9 \<or> n = 0xBA
         \<or> (0xBC \<le> n \<and> n \<le> 0xBE) \<or> (0xC0 \<le> n \<and> n \<le> 0xD6)
         \<or> (0xD8 \<le> n \<and> n \<le> 0xF6) \<or> 0xF8 \<le> n)"

definition lower_char :: "char \<Rightarrow> char" where
  "lower_char c =
     (let n = (of_char c :: nat)
      in if (65 \<le> n \<and> n \<le> 90) \<or> (0xC0 \<le> n \<and> n \<le> 0xDE \<and> n \<noteq> 0xD7)
         then char_of (n + 32) else c)"

definition lower :: "string \<Rightarrow> string" where
  "lower s = map lower_char s"

definition strip :: "string \<Rightarrow> string" where
  "strip s = rev (dropWhile is_space (rev (dropWhile is_space s)))"

definition lstrip_chars :: "string \<Rightarrow> string \<Rightarrow> string" where
  "lstrip_chars cs s = dropWhile (\<lambda>c. c \<in> set cs) s"

definition rstrip_chars :: "string \<Rightarrow> string \<Rightarrow> string" where
  "rstrip_chars cs s = rev (dropWhile (\<lambda>c. c \<in> set cs) (rev s))"

definition startswith :: "string \<Rightarrow> string \<Rightarrow> bool" where
  "startswith s p = (take (length p) s = p)"

definition endswith :: "string \<Rightarrow> string \<Rightarrow> bool" where
  "endswith s p = (length p \<le> length s \<and> drop (length s - length p) s = p)"

text \<open>\<^verbatim>\<open>sub in s\<close> for strings.\<close>

fun str_contains :: "string \<Rightarrow> string \<Rightarrow> bool" where
  "str_contains sub [] = (sub = [])"
| "str_contains sub (c # cs) = (startswith (c # cs) sub \<or> str_contains sub cs)"

text \<open>\<^verbatim>\<open>sep.join(parts)\<close>.\<close>

fun join :: "string \<Rightarrow> string list \<Rightarrow> string" where
  "join sep [] = []"
| "join sep [x] = x"
| "join sep (x # y # ys) = x @ sep @ join sep (y # ys)"

text \<open>
  \<^verbatim>\<open>str.splitlines()\<close>: the text is cut at every line boundary, the boundaries are dropped,
  and a final boundary opens no further (empty) line. The second argument is the line
  read so far.
\<close>

fun splitlines_from :: "string \<Rightarrow> string \<Rightarrow> string list" where
  "splitlines_from cur [] = (if cur = [] then [] else [cur])"
| "splitlines_from cur [c] = (if is_linebreak c then [cur] else [cur @ [c]])"
| "splitlines_from cur (c # d # ds) =
     (if c = CHR 0x0D \<and> d = CHR 0x0A then cur # splitlines_from [] ds
      else if is_linebreak c then cur # splitlines_from [] (d # ds)
      else splitlines_from (cur @ [c]) (d # ds))"

definition splitlines :: "string \<Rightarrow> string list" where
  "splitlines s = splitlines_from [] s"

text \<open>\<^verbatim>\<open>s.split(sep)\<close> for a one-character separator: never the empty list.\<close>

fun split_from :: "char \<Rightarrow> string \<Rightarrow> string \<Rightarrow> string list" where
  "split_from sep cur [] = [cur]"
| "split_from sep cur (c # cs) =
     (if c = sep then cur # split_from sep [] cs else split_from sep (cur @ [c]) cs)"

definition split :: "char \<Rightarrow> string \<Rightarrow> string list" where
  "split sep s = split_from sep [] s"

text \<open>The last component of \<^verbatim>\<open>s.rpartition(sep)\<close>: what follows the last separator, or all
  of \<open>s\<close> when it has none.\<close>

definition rpartition_last :: "char \<Rightarrow> string \<Rightarrow> string" where
  "rpartition_last sep s = rev (takeWhile (\<lambda>c. c \<noteq> sep) (rev s))"

section \<open>Values, errors and the host\<close>

text \<open>
  The Python values a settings file decodes to. The type \<open>'f\<close> stands for Python's
  \<^verbatim>\<open>float\<close>: the plugin only carries floats around, so they stay abstract. A decoded
  JSON object lists its items in iteration order.
\<close>

datatype 'f pyval =
    PNone
  | PBool bool
  | PInt int
  | PFloat 'f
  | PStr string
  | PList "'f pyval list"
  | PDict "(string \<times> 'f pyval) list"

text \<open>The exceptions that occur; all of them are subclasses of \<^verbatim>\<open>Exception\<close>.\<close>

datatype error =
    ValueError
  | AttributeError
  | TypeError
  | StopIteration
  | OtherError string

text \<open>
  What the plugin calls and does not define: the editor's API (\<^verbatim>\<open>sublime.find_resources\<close>,
  \<^verbatim>\<open>sublime.load_resource\<close>, \<^verbatim>\<open>sublime.decode_value\<close>), \<^verbatim>\<open>textwrap.dedent\<close>, and the builtins
  \<^verbatim>\<open>int\<close>, \<^verbatim>\<open>float\<close> and \<^verbatim>\<open>format\<close> (the latter on floats, lists and dicts). They are
  parameters of the model; a call that may raise returns a sum. \<^verbatim>\<open>int\<close> and \<^verbatim>\<open>float\<close> raise
  nothing but \<^verbatim>\<open>ValueError\<close> on a string, which is \<open>None\<close> here.
\<close>

record 'f host =
  sublime_find_resources :: "string \<Rightarrow> string list"
  sublime_load_resource :: "string \<Rightarrow> error + string"
  sublime_decode_value :: "string \<Rightarrow> error + 'f pyval"
  textwrap_dedent :: "string \<Rightarrow> string"
  builtin_int :: "string \<Rightarrow> int option"
  builtin_float :: "string \<Rightarrow> 'f option"
  builtin_format :: "'f pyval \<Rightarrow> string"

section \<open>settings.py: parsing one resource\<close>

text \<open>
  The regular expression \<^verbatim>\<open>"((?:[^"]|\\.)*)":\<close> applied with \<^verbatim>\<open>re.match\<close>, as the backtracking
  matcher runs it. After the opening quote, \<open>key_body\<close> is the starred group followed by
  \<^verbatim>\<open>":\<close>: at each position it first tries one more character other than a quote, then
  a backslash with any character but a newline, and only then leaves the star and asks
  for the closing quote and the colon. The first argument is group 1 as matched so far.
\<close>

fun key_body :: "string \<Rightarrow> string \<Rightarrow> string option" where
  "key_body acc [] = None"
| "key_body acc [c] = None"
| "key_body acc (c # d # ds) =
     (case (if c \<noteq> dquote then key_body (acc @ [c]) (d # ds) else None) of
        Some k \<Rightarrow> Some k
      | None \<Rightarrow>
          (case (if c = backslash \<and> d \<noteq> newline then key_body (acc @ [c, d]) ds else None) of
             Some k \<Rightarrow> Some k
           | None \<Rightarrow> if c = dquote \<and> d = CHR '':'' then Some acc else None))"

definition key_match :: "string \<Rightarrow> string option" where
  "key_match stripped =
     (case stripped of
        [] \<Rightarrow> None
      | c # cs \<Rightarrow> if c = dquote then key_body [] cs else None)"

text \<open>
  The local variables of \<^verbatim>\<open>KnownSettings._parse_settings\<close> and the attribute
  \<^verbatim>\<open>self.comments\<close>, which its loop writes.
\<close>

record parse_state =
  content :: "string list"
  comment :: "string list"
  in_comment :: bool
  self_comments :: "string \<rightharpoonup> string"

text \<open>One turn of the loop \<^verbatim>\<open>for line in lines\<close>.\<close>

definition parse_line :: "'f host \<Rightarrow> parse_state \<Rightarrow> string \<Rightarrow> parse_state" where
  "parse_line h st line =
     (let stripped = strip line in
      if in_comment st then
        (if endswith stripped ''*/'' then
           (let line' = rstrip_chars [CHR ''*'', CHR ''/'', CHR '' '', tab] line
            in st\<lparr>in_comment := False,
                  comment := (if line' \<noteq> [] then comment st @ [line'] else comment st)\<rparr>)
         else if startswith stripped ''* '' then st\<lparr>comment := comment st @ [drop 2 stripped]\<rparr>
         else st\<lparr>comment := comment st @ [line]\<rparr>)
      else if stripped = [] then st
      else if startswith stripped ''/*'' then
        (let stripped' = lstrip_chars ''*'' (drop 2 stripped)
         in st\<lparr>in_comment := True,
               comment := (if stripped' \<noteq> [] then comment st @ [stripped'] else comment st)\<rparr>)
      else if startswith stripped ''//'' then
        (let stripped' = drop 2 stripped
         in if stripped' = [] \<or> \<not> endswith stripped' ''//''
            then st\<lparr>comment := comment st @ [stripped']\<rparr> else st)
      else
        (let st' = st\<lparr>content := content st @ [line]\<rparr>
         in if comment st \<noteq> [] then
              (case key_match stripped of
                 None \<Rightarrow> st'
               | Some key \<Rightarrow>
                   st'\<lparr>self_comments :=
                         (if self_comments st key = None
                          then (self_comments st)(key \<mapsto> textwrap_dedent h (join [newline] (comment st)))
                          else self_comments st),
                       comment := []\<rparr>)
            else st'))"

fun parse_lines :: "'f host \<Rightarrow> parse_state \<Rightarrow> string list \<Rightarrow> parse_state" where
  "parse_lines h st [] = st"
| "parse_lines h st (line # lines) = parse_lines h (parse_line h st line) lines"

definition parse_start :: "(string \<rightharpoonup> string) \<Rightarrow> parse_state" where
  "parse_start cm = \<lparr>content = [], comment = [], in_comment = False, self_comments = cm\<rparr>"

text \<open>
  \<^verbatim>\<open>KnownSettings._parse_settings\<close>: the comments table as the loop left it, and what
  \<^verbatim>\<open>sublime.decode_value\<close> makes of the content lines (or the exception it raises).
\<close>

definition parse_settings ::
  "'f host \<Rightarrow> (string \<rightharpoonup> string) \<Rightarrow> string list \<Rightarrow> (string \<rightharpoonup> string) \<times> (error + 'f pyval)" where
  "parse_settings h cm lines =
     (let st = parse_lines h (parse_start cm) lines
      in (self_comments st, sublime_decode_value h (join [newline] (content st))))"

section \<open>settings.py: loading all resources\<close>

text \<open>
  The state of a \<^verbatim>\<open>KnownSettings\<close> object, and the two per-resource records of the
  module's logger: \<^verbatim>\<open>l.debug("parsing %r", resource)\<close> and \<^verbatim>\<open>l.error("error parsing ...")\<close>.
  The other debug records (counts and the duration) are left out.
\<close>

datatype log_record =
    Parsing string
  | ErrorParsing string error

record 'f known_settings =
  defaults :: "string \<rightharpoonup> 'f pyval"
  comments :: "string \<rightharpoonup> string"
  logged :: "log_record list"

definition PREF_FILE :: string where
  "PREF_FILE = ''Preferences.sublime-settings''"

definition ignored_patterns :: "string list" where
  "ignored_patterns = [''/User/'', ''/Preferences Editor/'']"

text \<open>\<^verbatim>\<open>any(ignored in resource for ignored in ignored_patterns)\<close>.\<close>

definition is_ignored :: "string \<Rightarrow> bool" where
  "is_ignored resource = list_ex (\<lambda>ignored. str_contains ignored resource) ignored_patterns"

text \<open>
  \<^verbatim>\<open>os.path.splitext(p)[0]\<close> (posixpath): the extension starts at the last dot of the last
  path component, unless only dots come before it in that component.
\<close>

definition rfind :: "char \<Rightarrow> string \<Rightarrow> int" where
  "rfind c s =
     (if c \<in> set s then int (length s) - 1 - int (length (takeWhile (\<lambda>x. x \<noteq> c) (rev s)))
      else - 1)"

definition splitext_root :: "string \<Rightarrow> string" where
  "splitext_root p =
     (let sepIndex = rfind CHR ''/'' p;
          dotIndex = rfind CHR ''.'' p
      in if dotIndex > sepIndex
            \<and> list_ex (\<lambda>c. c \<noteq> CHR ''.'')
                 (take (nat (dotIndex - (sepIndex + 1))) (drop (nat (sepIndex + 1)) p))
         then take (nat dotIndex) p
         else p)"

definition syntax_file_exts :: "string list" where
  "syntax_file_exts = [''.sublime-syntax'', ''.tmLanguage'']"

text \<open>\<^verbatim>\<open>KnownSettings._is_syntax_specific\<close>: the loop returns at the first extension that
  names a resource.\<close>

definition is_syntax_specific :: "'f host \<Rightarrow> string \<Rightarrow> bool" where
  "is_syntax_specific h filename =
     (let name_no_ext = splitext_root filename
      in list_ex (\<lambda>ext. sublime_find_resources h (name_no_ext @ ext) \<noteq> []) syntax_file_exts)"

text \<open>The list \<^verbatim>\<open>resources\<close> as \<^verbatim>\<open>_load_settings\<close> has built it when its loop starts.\<close>

definition collect_resources :: "'f host \<Rightarrow> string \<Rightarrow> string list" where
  "collect_resources h filename =
     (let resources = sublime_find_resources h filename
                        @ sublime_find_resources h (filename @ ''-hints'')
      in if is_syntax_specific h filename
         then resources @ (sublime_find_resources h PREF_FILE
                             @ sublime_find_resources h (PREF_FILE @ ''-hints''))
         else resources)"

text \<open>\<^verbatim>\<open>dict.setdefault(key, value)\<close>, and the inner loop over \<^verbatim>\<open>.items()\<close>.\<close>

definition setdefault :: "('k \<rightharpoonup> 'v) \<Rightarrow> 'k \<Rightarrow> 'v \<Rightarrow> ('k \<rightharpoonup> 'v)" where
  "setdefault d k v = (case d k of None \<Rightarrow> d(k \<mapsto> v) | Some _ \<Rightarrow> d)"

fun merge_items :: "('k \<rightharpoonup> 'v) \<Rightarrow> ('k \<times> 'v) list \<Rightarrow> ('k \<rightharpoonup> 'v)" where
  "merge_items d [] = d"
| "merge_items d ((k, v) # kvs) = merge_items (setdefault d k v) kvs"

text \<open>
  The body of the \<^verbatim>\<open>try\<close> statement for one resource: the state it leaves, and the
  exception if one was raised. \<^verbatim>\<open>.items()\<close> exists on a dict only; on any other decoded
  value the attribute lookup raises \<^verbatim>\<open>AttributeError\<close>. By then \<^verbatim>\<open>_parse_settings\<close> has
  written \<^verbatim>\<open>self.comments\<close>.
\<close>

definition try_resource ::
  "'f host \<Rightarrow> 'f known_settings \<Rightarrow> string \<Rightarrow> 'f known_settings \<times> error option" where
  "try_resource h s resource =
     (let s1 = s\<lparr>logged := logged s @ [Parsing resource]\<rparr>
      in case sublime_load_resource h resource of
           Inl e \<Rightarrow> (s1, Some e)
         | Inr text \<Rightarrow>
             (case parse_settings h (comments s1) (splitlines text) of
                (cm, Inl e) \<Rightarrow> (s1\<lparr>comments := cm\<rparr>, Some e)
              | (cm, Inr (PDict items)) \<Rightarrow>
                  (s1\<lparr>comments := cm, defaults := merge_items (defaults s1) items\<rparr>, None)
              | (cm, Inr _) \<Rightarrow> (s1\<lparr>comments := cm\<rparr>, Some AttributeError)))"

text \<open>One turn of \<^verbatim>\<open>for resource in resources\<close>, with the \<^verbatim>\<open>except Exception\<close> handler.\<close>

definition load_resource_step :: "'f host \<Rightarrow> 'f known_settings \<Rightarrow> string \<Rightarrow> 'f known_settings" where
  "load_resource_step h s resource =
     (if is_ignored resource then s
      else case try_resource h s resource of
             (s', None) \<Rightarrow> s'
           | (s', Some e) \<Rightarrow> s'\<lparr>logged := logged s' @ [ErrorParsing resource e]\<rparr>)"

fun load_resources :: "'f host \<Rightarrow> 'f known_settings \<Rightarrow> string list \<Rightarrow> 'f known_settings" where
  "load_resources h s [] = s"
| "load_resources h s (resource # resources) =
     load_resources h (load_resource_step h s resource) resources"

text \<open>\<^verbatim>\<open>KnownSettings._load_settings\<close>, up to the call of \<^verbatim>\<open>on_loaded\<close>.\<close>

definition load_settings :: "'f host \<Rightarrow> string \<Rightarrow> 'f known_settings \<Rightarrow> 'f known_settings" where
  "load_settings h filename s = load_resources h s (collect_resources h filename)"

text \<open>\<^verbatim>\<open>KnownSettings.trigger_settings_reload\<close> empties both tables before the scan.\<close>

definition fresh_settings :: "'f known_settings" where
  "fresh_settings = \<lparr>defaults = Map.empty, comments = Map.empty, logged = []\<rparr>"

text \<open>The line classes the loop tells apart outside a block comment.\<close>

definition is_blank_line :: "string \<Rightarrow> bool" where
  "is_blank_line line = (strip line = [])"

definition is_comment_line :: "string \<Rightarrow> bool" where
  "is_comment_line line = (startswith (strip line) ''/*'' \<or> startswith (strip line) ''//'')"

text \<open>The log records \<^verbatim>\<open>parsing ...\<close> name the resources whose \<^verbatim>\<open>try\<close> body was entered.\<close>

fun scanned :: "log_record list \<Rightarrow> string list" where
  "scanned [] = []"
| "scanned (Parsing r # recs) = r # scanned recs"
| "scanned (ErrorParsing r e # recs) = scanned recs"

text \<open>
  What one resource has to merge: the items of the dict its content decodes to, and
  nothing when it is skipped or its \<^verbatim>\<open>try\<close> body raises.
\<close>

definition resource_entries :: "'f host \<Rightarrow> string \<Rightarrow> (string \<times> 'f pyval) list" where
  "resource_entries h resource =
     (if is_ignored resource then []
      else case sublime_load_resource h resource of
             Inl e \<Rightarrow> []
           | Inr text \<Rightarrow>
               (case snd (parse_settings h Map.empty (splitlines text)) of
                  Inr (PDict items) \<Rightarrow> items
                | _ \<Rightarrow> []))"

section \<open>settings.py: value completions\<close>

text \<open>The module-level \<^verbatim>\<open>decode_value\<close>: \<^verbatim>\<open>int(string)\<close>, and \<^verbatim>\<open>float(string)\<close> in the handler of
  its \<^verbatim>\<open>ValueError\<close>; what \<^verbatim>\<open>float\<close> raises is not caught.\<close>

definition decode_value :: "'f host \<Rightarrow> string \<Rightarrow> error + 'f pyval" where
  "decode_value h s =
     (if lower s = ''true'' then Inr (PBool True)
      else if lower s = ''false'' then Inr (PBool False)
      else case builtin_int h s of
             Some i \<Rightarrow> Inr (PInt i)
           | None \<Rightarrow>
               (case builtin_float h s of
                  Some f \<Rightarrow> Inr (PFloat f)
                | None \<Rightarrow> Inl ValueError))"

definition digit_char :: "nat \<Rightarrow> char" where
  "digit_char n = ''0123456789'' ! n"

fun show_nat :: "nat \<Rightarrow> string" where
  "show_nat n = (if n < 10 then [digit_char n] else show_nat (n div 10) @ [digit_char (n mod 10)])"

declare show_nat.simps [simp del]

definition show_int :: "int \<Rightarrow> string" where
  "show_int i = (if i < 0 then ''-'' @ show_nat (nat (- i)) else show_nat (nat i))"

text \<open>\<^verbatim>\<open>type(value).__name__\<close> and \<^verbatim>\<open>"{0}".format(value)\<close>.\<close>

fun type_name :: "'f pyval \<Rightarrow> string" where
  "type_name PNone = ''NoneType''"
| "type_name (PBool b) = ''bool''"
| "type_name (PInt i) = ''int''"
| "type_name (PFloat f) = ''float''"
| "type_name (PStr s) = ''str''"
| "type_name (PList xs) = ''list''"
| "type_name (PDict kvs) = ''dict''"

fun py_format :: "'f host \<Rightarrow> 'f pyval \<Rightarrow> string" where
  "py_format h PNone = ''None''"
| "py_format h (PBool b) = (if b then ''True'' else ''False'')"
| "py_format h (PInt i) = show_int i"
| "py_format h (PStr s) = s"
| "py_format h v = builtin_format h v"

type_synonym 'f completion = "string \<times> 'f pyval"

definition format_completion_item :: "'f host \<Rightarrow> 'f pyval \<Rightarrow> 'f completion" where
  "format_completion_item h v = (py_format h v @ ''  '' @ [tab] @ type_name v, v)"

text \<open>
  The completions are collected in a Python \<^verbatim>\<open>set\<close> of tuples. Adding a tuple hashes it,
  and a tuple that holds a list or a dict has no hash: \<^verbatim>\<open>TypeError\<close>.
\<close>

fun hashable :: "'f pyval \<Rightarrow> bool" where
  "hashable (PList xs) = False"
| "hashable (PDict kvs) = False"
| "hashable v = True"

definition set_add :: "'f completion set \<Rightarrow> 'f completion \<Rightarrow> error + 'f completion set" where
  "set_add S item = (if hashable (snd item) then Inr (insert item S) else Inl TypeError)"

text \<open>\<^verbatim>\<open>set.update\<close> and \<^verbatim>\<open>set(...)\<close> over the formatted items of a list, one \<^verbatim>\<open>add\<close> each.\<close>

fun set_update :: "'f host \<Rightarrow> 'f completion set \<Rightarrow> 'f pyval list \<Rightarrow> error + 'f completion set" where
  "set_update h S [] = Inr S"
| "set_update h S (v # vs) =
     (case set_add S (format_completion_item h v) of
        Inl e \<Rightarrow> Inl e
      | Inr S' \<Rightarrow> set_update h S' vs)"

text \<open>
  \<^verbatim>\<open>re.finditer\<close> for a pattern \<^verbatim>\<open>d([class]+)d\<close> whose class excludes the delimiter \<open>d\<close>:
  group 1 of every match, left to right. At a delimiter the longest run of class
  characters is taken; the match needs the run to be non-empty and closed by the
  delimiter (a shorter run is never followed by one), and the search goes on behind it.
\<close>

function find_delimited :: "char \<Rightarrow> (char \<Rightarrow> bool) \<Rightarrow> string \<Rightarrow> string list" where
  "find_delimited d cls [] = []"
| "find_delimited d cls (c # cs) =
     (if c = d \<and> takeWhile cls cs \<noteq> [] \<and> startswith (dropWhile cls cs) [d]
      then takeWhile cls cs # find_delimited d cls (drop 1 (dropWhile cls cs))
      else find_delimited d cls cs)"
  by pat_completeness auto
termination
  by (relation "measure (\<lambda>(d, cls, s). length s)")
     (auto intro: le_imp_less_Suc order_trans [OF diff_le_self length_dropWhile_le])

definition backticked :: "string \<Rightarrow> string list" where
  "backticked comment_text = find_delimited backtick (\<lambda>c. c \<noteq> backtick \<and> c \<noteq> newline) comment_text"

definition quoted_tokens :: "string \<Rightarrow> string list" where
  "quoted_tokens comment_text = find_delimited dquote (\<lambda>c. c = CHR ''.'' \<or> is_word_char c) comment_text"

text \<open>The first loop of \<^verbatim>\<open>_completions_from_comment\<close>, over the backticked groups.\<close>

fun backtick_loop :: "'f host \<Rightarrow> 'f completion set \<Rightarrow> string list \<Rightarrow> error + 'f completion set" where
  "backtick_loop h S [] = Inr S"
| "backtick_loop h S (g # gs) =
     (case (case sublime_decode_value h g of
              Inr v \<Rightarrow> Inr v
            | Inl e \<Rightarrow> if e = ValueError then Inr (PStr g) else Inl e) of
        Inl e \<Rightarrow> Inl e
      | Inr v \<Rightarrow>
          (case (case v of
                   PList items \<Rightarrow> set_update h S items
                 | _ \<Rightarrow> set_add S (format_completion_item h v)) of
             Inl e \<Rightarrow> Inl e
           | Inr S' \<Rightarrow> backtick_loop h S' gs))"

text \<open>The second loop, over the quoted tokens.\<close>

fun quoted_loop :: "'f host \<Rightarrow> 'f completion set \<Rightarrow> string list \<Rightarrow> error + 'f completion set" where
  "quoted_loop h S [] = Inr S"
| "quoted_loop h S (g # gs) =
     (case (case decode_value h g of
              Inr v \<Rightarrow> Inr v
            | Inl e \<Rightarrow> if e = ValueError then Inr (PStr g) else Inl e) of
        Inl e \<Rightarrow> Inl e
      | Inr v \<Rightarrow>
          (case set_add S (format_completion_item h v) of
             Inl e \<Rightarrow> Inl e
           | Inr S' \<Rightarrow> quoted_loop h S' gs))"

text \<open>\<^verbatim>\<open>KnownSettings._completions_from_comment\<close>; \<open>Inr None\<close> is the bare \<^verbatim>\<open>return\<close>.\<close>

definition completions_from_comment ::
  "'f host \<Rightarrow> 'f known_settings \<Rightarrow> string \<Rightarrow> error + 'f completion set option" where
  "completions_from_comment h s key =
     (case comments s key of
        None \<Rightarrow> Inr None
      | Some comment_text \<Rightarrow>
          if comment_text = [] then Inr None
          else (case backtick_loop h {} (backticked comment_text) of
                  Inl e \<Rightarrow> Inl e
                | Inr S \<Rightarrow>
                    (case quoted_loop h S (quoted_tokens comment_text) of
                       Inl e \<Rightarrow> Inl e
                     | Inr S' \<Rightarrow> Inr (Some S'))))"

text \<open>\<^verbatim>\<open>KnownSettings._completions_from_default\<close>.\<close>

definition completions_from_default ::
  "'f host \<Rightarrow> 'f known_settings \<Rightarrow> string \<Rightarrow> error + 'f completion set option" where
  "completions_from_default h s key =
     (case defaults s key of
        None \<Rightarrow> Inr None
      | Some PNone \<Rightarrow> Inr None
      | Some (PBool b) \<Rightarrow> map_sum id Some (set_update h {} [PBool False, PBool True])
      | Some (PList items) \<Rightarrow> map_sum id Some (set_update h {} items)
      | Some v \<Rightarrow> map_sum id Some (set_update h {} [v]))"

text \<open>
  \<^verbatim>\<open>_color_scheme_completions\<close> and \<^verbatim>\<open>_theme_completions\<close>. The patterns to hide
  (\<^verbatim>\<open>_settings().get(...) or []\<close>) are the argument \<open>hidden\<close>. Unpacking
  \<^verbatim>\<open>_, package, *_, file_name\<close> needs three path components.
\<close>

fun color_scheme_loop :: "string list \<Rightarrow> 'f completion set \<Rightarrow> string list \<Rightarrow> error + 'f completion set" where
  "color_scheme_loop hidden S [] = Inr S"
| "color_scheme_loop hidden S (scheme_path # paths) =
     (if list_ex (\<lambda>hide. str_contains hide scheme_path) hidden
      then color_scheme_loop hidden S paths
      else (case split CHR ''/'' scheme_path of
              a # package # rest \<Rightarrow>
                if rest = [] then Inl ValueError
                else color_scheme_loop hidden
                       (insert (last rest @ ''  '' @ [tab] @ package, PStr scheme_path) S) paths
            | _ \<Rightarrow> Inl ValueError))"

definition color_scheme_completions :: "'f host \<Rightarrow> string list \<Rightarrow> error + 'f completion set" where
  "color_scheme_completions h hidden =
     color_scheme_loop hidden {} (sublime_find_resources h ''*.tmTheme'')"

definition theme_completions :: "'f host \<Rightarrow> string list \<Rightarrow> 'f completion set" where
  "theme_completions h hidden =
     (\<lambda>theme. (theme @ ''  '' @ [tab] @ ''theme'', PStr theme)) `
       set (filter (\<lambda>theme. \<not> list_ex (\<lambda>hide. str_contains hide theme) hidden)
              (map (rpartition_last CHR ''/'') (sublime_find_resources h ''*.sublime-theme'')))"

text \<open>\<^verbatim>\<open>KnownSettings._value_completions_for\<close>; \<^verbatim>\<open>not completions\<close> holds of \<^verbatim>\<open>None\<close> and of
  the empty set.\<close>

definition value_completions_for ::
  "'f host \<Rightarrow> string list \<Rightarrow> string list \<Rightarrow> 'f known_settings \<Rightarrow> string
     \<Rightarrow> error + 'f completion set option" where
  "value_completions_for h hidden_schemes hidden_themes s key =
     (if key = ''color_scheme'' then map_sum id Some (color_scheme_completions h hidden_schemes)
      else if key = ''theme'' then Inr (Some (theme_completions h hidden_themes))
      else (case completions_from_comment h s key of
              Inl e \<Rightarrow> Inl e
            | Inr completions \<Rightarrow>
                if completions = None \<or> completions = Some {}
                then completions_from_default h s key
                else Inr completions))"

section \<open>plugins/syntax\_dev/completions.py: scope completions\<close>

text \<open>
  Modelled from the spec: the classes of the scope trie (\<^verbatim>\<open>ScopeNode\<close>, and the node set
  with its methods \<^verbatim>\<open>find\<close> and \<^verbatim>\<open>to_completion\<close>) and the parser that builds
  \<^verbatim>\<open>COMPILED_HEADS\<close> are not among the sources; only the indented text \<^verbatim>\<open>DATA\<close> is. A node
  has a name segment and an ordered set of children, looked up by exact segment match;
  the trie follows the indentation of \<^verbatim>\<open>DATA\<close>. How a node set becomes completion items
  (\<^verbatim>\<open>to_completion\<close>) is a parameter of \<open>complete_scope\<close> below.
\<close>

datatype scope_node = ScopeNode (name: string) (children: "scope_node list")

definition find_node :: "scope_node list \<Rightarrow> string \<Rightarrow> scope_node option" where
  "find_node nodes token = List.find (\<lambda>node. name node = token) nodes"

definition COMPILED_HEADS :: "scope_node list" where
  "COMPILED_HEADS =
  [ScopeNode ''comment''
     [ScopeNode ''line''
        [ScopeNode ''double-slash'' [],
         ScopeNode ''double-dash'' [],
         ScopeNode ''number-sign'' [],
         ScopeNode ''percentage'' [],
         ScopeNode ''semi-colon'' []],
      ScopeNode ''block''
        [ScopeNode ''documentation'' []]],
   ScopeNode ''constant''
     [ScopeNode ''numeric''
        [ScopeNode ''integer'' [],
         ScopeNode ''float'' [],
         ScopeNode ''hex'' [],
         ScopeNode ''octal'' [],
         ScopeNode ''complex'' []],
      ScopeNode ''character''
        [ScopeNode ''escape'' []],
      ScopeNode ''language'' [],
      ScopeNode ''other''
        [ScopeNode ''placeholder'' []]],
   ScopeNode ''entity''
     [ScopeNode ''name''
        [ScopeNode ''class''
           [ScopeNode ''forward-decl'' []],
         ScopeNode ''struct'' [],
         ScopeNode ''enum'' [],
         ScopeNode ''union'' [],
         ScopeNode ''trait'' [],
         ScopeNode ''interface'' [],
         ScopeNode ''type'' [],
         ScopeNode ''function''
           [ScopeNode ''constructor'' [],
            ScopeNode ''destructor'' []],
         ScopeNode ''namespace'' [],
         ScopeNode ''constant'' [],
         ScopeNode ''label'' [],
         ScopeNode ''section'' [],
         ScopeNode ''tag'' []],
      ScopeNode ''other''
        [ScopeNode ''inherited-class'' [],
         ScopeNode ''attribute-name'' []]],
   ScopeNode ''invalid''
     [ScopeNode ''illegal'' [],
      ScopeNode ''deprecated'' []],
   ScopeNode ''keyword''
     [ScopeNode ''control''
        [ScopeNode ''conditional'' [],
         ScopeNode ''flow'' [],
         ScopeNode ''import'' []],
      ScopeNode ''declaration''
        [ScopeNode ''function'' [],
         ScopeNode ''class'' [],
         ScopeNode ''struct'' [],
         ScopeNode ''enum'' [],
         ScopeNode ''union'' [],
         ScopeNode ''trait'' [],
         ScopeNode ''interface'' [],
         ScopeNode ''impl'' []],
      ScopeNode ''operator''
        [ScopeNode ''assignment'' [],
         ScopeNode ''arithmetic'' [],
         ScopeNode ''bitwise'' [],
         ScopeNode ''logical'' [],
         ScopeNode ''word'' []],
      ScopeNode ''other'' []],
   ScopeNode ''markup''
     [ScopeNode ''heading'' [],
      ScopeNode ''list''
        [ScopeNode ''numbered'' [],
         ScopeNode ''unnumbered'' []],
      ScopeNode ''bold'' [],
      ScopeNode ''italic'' [],
      ScopeNode ''underline''
        [ScopeNode ''link'' []],
      ScopeNode ''inserted'' [],
      ScopeNode ''deleted'' [],
      ScopeNode ''quote'' [],
      ScopeNode ''raw''
        [ScopeNode ''inline'' [],
         ScopeNode ''block'' []],
      ScopeNode ''other'' []],
   ScopeNode ''meta''
     [ScopeNode ''class'' [],
      ScopeNode ''struct'' [],
      ScopeNode ''enum'' [],
      ScopeNode ''union'' [],
      ScopeNode ''trait'' [],
      ScopeNode ''interface'' [],
      ScopeNode ''impl'' [],
      ScopeNode ''type'' [],
      ScopeNode ''function''
        [ScopeNode ''parameters'' [],
         ScopeNode ''return-type'' []],
      ScopeNode ''namespace'' [],
      ScopeNode ''preprocessor'' [],
      ScopeNode ''annotation''
        [ScopeNode ''identifier'' [],
         ScopeNode ''parameters'' []],
      ScopeNode ''path'' [],
      ScopeNode ''function-call'' [],
      ScopeNode ''block'' [],
      ScopeNode ''braces'' [],
      ScopeNode ''group'' [],
      ScopeNode ''parens'' [],
      ScopeNode ''brackets'' [],
      ScopeNode ''generic'' [],
      ScopeNode ''tag'' [],
      ScopeNode ''paragraph'' [],
      ScopeNode ''toc-list'' [],
      ScopeNode ''string'' [],
      ScopeNode ''interpolation'' [],
      ScopeNode ''sequence'' [],
      ScopeNode ''mapping''
        [ScopeNode ''key'' [],
         ScopeNode ''value'' []],
      ScopeNode ''set'' []],
   ScopeNode ''punctuation''
     [ScopeNode ''definition''
        [ScopeNode ''annotation''
           [ScopeNode ''begin'' [],
            ScopeNode ''end'' []],
         ScopeNode ''string''
           [ScopeNode ''begin'' [],
            ScopeNode ''end'' []],
         ScopeNode ''comment''
           [ScopeNode ''begin'' [],
            ScopeNode ''end'' []],
         ScopeNode ''keyword''
           [ScopeNode ''begin'' [],
            ScopeNode ''end'' []],
         ScopeNode ''generic''
           [ScopeNode ''begin'' [],
            ScopeNode ''end'' []],
         ScopeNode ''placeholder''
           [ScopeNode ''begin'' [],
            ScopeNode ''end'' []],
         ScopeNode ''variable''
           [ScopeNode ''begin'' [],
            ScopeNode ''end'' []]],
      ScopeNode ''section''
        [ScopeNode ''block''
           [ScopeNode ''begin'' [],
            ScopeNode ''end'' []],
         ScopeNode ''braces''
           [ScopeNode ''begin'' [],
            ScopeNode ''end'' []],
         ScopeNode ''group''
           [ScopeNode ''begin'' [],
            ScopeNode ''end'' []],
         ScopeNode ''parens''
           [ScopeNode ''begin'' [],
            ScopeNode ''end'' []],
         ScopeNode ''brackets''
           [ScopeNode ''begin'' [],
            ScopeNode ''end'' []],
         ScopeNode ''sequence''
           [ScopeNode ''begin'' [],
            ScopeNode ''end'' []],
         ScopeNode ''mapping''
           [ScopeNode ''begin'' [],
            ScopeNode ''end'' []],
         ScopeNode ''set''
           [ScopeNode ''begin'' [],
            ScopeNode ''end'' []]],
      ScopeNode ''separator''
        [ScopeNode ''continuation'' [],
         ScopeNode ''sequence'' [],
         ScopeNode ''mapping''
           [ScopeNode ''key-value'' [],
            ScopeNode ''pair'' []],
         ScopeNode ''decimal'' []],
      ScopeNode ''terminator'' [],
      ScopeNode ''accessor''
        [ScopeNode ''arrow'' [],
         ScopeNode ''dot'' [],
         ScopeNode ''double-colon'' [],
         ScopeNode ''fat-arrow'' [],
         ScopeNode ''colon'' [],
         ScopeNode ''backslash'' []]],
   ScopeNode ''storage''
     [ScopeNode ''type''
        [ScopeNode ''function'' [],
         ScopeNode ''class'' [],
         ScopeNode ''struct'' [],
         ScopeNode ''enum'' [],
         ScopeNode ''union'' [],
         ScopeNode ''trait'' [],
         ScopeNode ''interface'' [],
         ScopeNode ''impl'' []],
      ScopeNode ''modifier'' []],
   ScopeNode ''string''
     [ScopeNode ''quoted''
        [ScopeNode ''single'' [],
         ScopeNode ''double'' [],
         ScopeNode ''triple'' [],
         ScopeNode ''other'' []],
      ScopeNode ''unquoted'' [],
      ScopeNode ''regexp'' [],
      ScopeNode ''interpolated'' [],
      ScopeNode ''other'' []],
   ScopeNode ''support''
     [ScopeNode ''constant'' [],
      ScopeNode ''function'' [],
      ScopeNode ''module'' [],
      ScopeNode ''type'' [],
      ScopeNode ''class'' [],
      ScopeNode ''other'' []],
   ScopeNode ''variable''
     [ScopeNode ''language'' [],
      ScopeNode ''parameter'' [],
      ScopeNode ''function'' [],
      ScopeNode ''annotation'' [],
      ScopeNode ''other''
        [ScopeNode ''constant'' [],
         ScopeNode ''member'' [],
         ScopeNode ''readwrite'' []]]]"

text \<open>The editor's completion item, with the fields \<^verbatim>\<open>format_completions\<close> sets.\<close>

type_synonym kind = "string \<times> string \<times> string"

definition KIND_SCOPE :: kind where
  "KIND_SCOPE = (''KIND_ID_NAMESPACE'', ''s'', ''Scope'')"

record completion_item =
  trigger :: string
  annotation :: string
  kind :: kind
  details :: string

definition format_completions ::
  "(string \<times> nat option) list \<Rightarrow> string \<Rightarrow> kind \<Rightarrow> completion_item list" where
  "format_completions items ann k =
     map (\<lambda>(trig, row).
            \<lparr>trigger = trig, annotation = ann, kind = k,
             details =
               (case row of
                  None \<Rightarrow> []
                | Some r \<Rightarrow>
                    ''Defined at line <a href='' @ [CHR 0x27] @ ''subl:goto_line {'' @ [dquote]
                      @ ''line'' @ [dquote] @ '': '' @ [dquote] @ show_nat r @ [dquote] @ ''}''
                      @ [CHR 0x27] @ ''>'' @ show_nat r @ ''</a>'')\<rparr>)
         items"

text \<open>
  What the listener reads from its view: whether \<^verbatim>\<open>view.window()\<close> is true as a condition,
  \<^verbatim>\<open>rowcol\<close>, the text of the line at a point, and the texts of the regions that match
  \<^verbatim>\<open>meta.scope string - meta.block\<close>.
\<close>

record view =
  window_truthy :: bool
  rowcol :: "nat \<Rightarrow> nat \<times> nat"
  line_text :: "nat \<Rightarrow> string"
  base_scope_regions :: "string list"

text \<open>What the listener writes: its attribute \<^verbatim>\<open>base_suffix\<close>, the status bar and the console.\<close>

record listener =
  base_suffix :: "string option"
  status_bar :: "string list"
  printed :: "string list"

definition status :: "string \<Rightarrow> string \<Rightarrow> bool \<Rightarrow> listener \<Rightarrow> listener" where
  "status package_name msg to_console L =
     (let m = ''['' @ package_name @ ''] '' @ msg
      in L\<lparr>status_bar := status_bar L @ [m],
            printed := (if to_console then printed L @ [m] else printed L)\<rparr>)"

definition line_prefix :: "view \<Rightarrow> nat \<Rightarrow> string" where
  "line_prefix v point = take (snd (rowcol v point)) (line_text v point)"

text \<open>\<^verbatim>\<open>SyntaxDefCompletionsListener._complete_base_scope\<close>.\<close>

definition complete_base_scope ::
  "string \<Rightarrow> view \<Rightarrow> listener \<Rightarrow> string \<Rightarrow> completion_item list \<times> listener" where
  "complete_base_scope package_name v L last_token =
     (case base_scope_regions v of
        [base_scope] \<Rightarrow>
          (let suffix = rpartition_last CHR ''.'' base_scope
           in if last_token = suffix then ([], L\<lparr>base_suffix := None\<rparr>)
              else (format_completions [(suffix, None)] ''base suffix'' KIND_SCOPE,
                    L\<lparr>base_suffix := Some suffix\<rparr>))
      | _ \<Rightarrow>
          ([], (status package_name ''Warning: Could not determine base scope uniquely'' True L)
                 \<lparr>base_suffix := None\<rparr>))"

text \<open>
  The loop of \<^verbatim>\<open>_complete_scope\<close> over \<^verbatim>\<open>enumerate(tokens[:-1])\<close>: it breaks at index \<open>i\<close>
  when the token is not found, breaks when the found node has no children, and
  otherwise ends with the node set it has reached.
\<close>

datatype browse_result =
    Not_found nat
  | No_nodes
  | Walked "scope_node list"

fun browse :: "scope_node list \<Rightarrow> nat \<Rightarrow> string list \<Rightarrow> browse_result" where
  "browse nodes i [] = Walked nodes"
| "browse nodes i (token # tokens) =
     (case find_node nodes token of
        None \<Rightarrow> Not_found i
      | Some node \<Rightarrow>
          if children node = [] then No_nodes
          else browse (children node) (Suc i) tokens)"

text \<open>
  \<^verbatim>\<open>SyntaxDefCompletionsListener._complete_scope\<close>. The set \<^verbatim>\<open>prefixes\<close> is the list of
  distinct prefixes; \<^verbatim>\<open>next(iter(prefixes))\<close> on the empty set raises \<^verbatim>\<open>StopIteration\<close>.
  The window is passed to \<^verbatim>\<open>status\<close> in the place of \<^verbatim>\<open>console\<close>.
\<close>

definition complete_scope ::
  "string \<Rightarrow> scope_node list \<Rightarrow> (scope_node list \<Rightarrow> completion_item list) \<Rightarrow> view \<Rightarrow> listener
     \<Rightarrow> nat list \<Rightarrow> error + (completion_item list option \<times> listener)" where
  "complete_scope package_name heads to_completion v L locations =
     (let prefixes = remdups (map (\<lambda>point. rpartition_last CHR '' '' (line_prefix v point)) locations)
      in if length prefixes > 1 then Inr (None, L)
         else (case prefixes of
                 [] \<Rightarrow> Inl StopIteration
               | real_prefix # _ \<Rightarrow>
                   (let tokens = split CHR ''.'' real_prefix
                    in if length tokens \<le> 1 then Inr (Some (to_completion heads), L)
                       else (case complete_base_scope package_name v L (last tokens) of
                               (base_scope_completion, L') \<Rightarrow>
                                 (case browse heads 0 (butlast tokens) of
                                    Not_found i \<Rightarrow>
                                      Inr (Some base_scope_completion,
                                           status package_name
                                             ([backtick] @ join ''.'' (take (Suc i) tokens) @ [backtick]
                                                @ '' not found in scope naming conventions'')
                                             (window_truthy v) L')
                                  | No_nodes \<Rightarrow>
                                      Inr (Some base_scope_completion,
                                           status package_name
                                             (''No nodes available in scope naming conventions after ''
                                                @ [backtick] @ join ''.'' (butlast tokens) @ [backtick])
                                             (window_truthy v) L')
                                  | Walked nodes \<Rightarrow>
                                      Inr (Some (to_completion nodes @ base_scope_completion), L'))))))"

section \<open>Concrete runs\<close>

text \<open>
  A model of \<^verbatim>\<open>textwrap.dedent\<close> (CPython 3.8) for concrete hosts: lines of blanks and tabs
  become empty, the margin is the longest common leading run of blanks and tabs of the
  other non-empty lines, and it is removed from every line that starts with it.
\<close>

definition is_blank :: "char \<Rightarrow> bool" where
  "is_blank c = (c = CHR '' '' \<or> c = tab)"

fun common_prefix :: "string \<Rightarrow> string \<Rightarrow> string" where
  "common_prefix (x # xs) (y # ys) = (if x = y then x # common_prefix xs ys else [])"
| "common_prefix xs ys = []"

definition dedent :: "string \<Rightarrow> string" where
  "dedent s =
     (let ls = map (\<lambda>l. if list_all is_blank l then [] else l) (split newline s);
          indents = map (takeWhile is_blank) (filter (\<lambda>l. l \<noteq> []) ls)
      in case indents of
           [] \<Rightarrow> join [newline] ls
         | i # is \<Rightarrow>
             (let margin = foldl common_prefix i is
              in if margin = [] then join [newline] ls
                 else join [newline]
                        (map (\<lambda>l. if startswith l margin then drop (length margin) l else l) ls)))"

text \<open>A model of \<^verbatim>\<open>int\<close> on the strings made of an optional minus sign and decimal digits.\<close>

definition digit_value :: "char \<Rightarrow> nat option" where
  "digit_value c =
     (let n = (of_char c :: nat) in if 48 \<le> n \<and> n \<le> 57 then Some (n - 48) else None)"

fun digits_value :: "nat \<Rightarrow> string \<Rightarrow> nat option" where
  "digits_value acc [] = Some acc"
| "digits_value acc (c # cs) =
     (case digit_value c of None \<Rightarrow> None | Some d \<Rightarrow> digits_value (10 * acc + d) cs)"

definition decimal_int :: "string \<Rightarrow> int option" where
  "decimal_int s =
     (case s of
        [] \<Rightarrow> None
      | c # cs \<Rightarrow>
          if c = CHR ''-'' then (if cs = [] then None else map_option (\<lambda>n. - int n) (digits_value 0 cs))
          else map_option int (digits_value 0 s))"

text \<open>
  A small installation for concrete runs. Four packages ship \<^verbatim>\<open>Demo.sublime-settings\<close>: the
  package itself, the user's package (always skipped), one whose file is not JSON, and one
  that sets \<^verbatim>\<open>size\<close> again; a syntax definition \<^verbatim>\<open>Demo.sublime-syntax\<close> exists, so the
  general preferences are read as well. The decoder knows the contents of these files and
  one backticked literal, and raises \<^verbatim>\<open>ValueError\<close> on everything else.
\<close>

definition demo_lines :: "string list" where
  "demo_lines =
     [''// Demo settings'',
      ''{'',
      ''    // Size: \"small\" or \"large\".'',
      ''    \"size\": \"small\",'',
      ''    \"flag\": true'',
      ''}'']"

definition demo_content :: "string list" where
  "demo_content = [''{'', ''    \"size\": \"small\",'', ''    \"flag\": true'', ''}'']"

definition broken_lines :: "string list" where
  "broken_lines = [''// Not JSON'', ''\"broken\": ?'']"

definition other_lines :: "string list" where
  "other_lines = [''{\"size\": \"large\", \"triggers\": [{\"selector\": \"text.html\"}]}'']"

definition pref_lines :: "string list" where
  "pref_lines = [''{\"font_size\": 10}'']"

definition demo_decode :: "string \<Rightarrow> error + string pyval" where
  "demo_decode s =
     (if s = join [newline] demo_content
      then Inr (PDict [(''size'', PStr ''small''), (''flag'', PBool True)])
      else if s = join [newline] other_lines
      then Inr (PDict [(''size'', PStr ''large''),
                       (''triggers'', PList [PDict [(''selector'', PStr ''text.html'')]])])
      else if s = join [newline] pref_lines
      then Inr (PDict [(''font_size'', PInt 10)])
      else if s = ''[1, 2]'' then Inr (PList [PInt 1, PInt 2])
      else Inl ValueError)"

definition demo_resources :: "(string \<times> string list) list" where
  "demo_resources =
     [(''Packages/Demo/Demo.sublime-settings'', demo_lines),
      (''Packages/User/Demo.sublime-settings'', other_lines),
      (''Packages/Broken/Demo.sublime-settings'', broken_lines),
      (''Packages/Other/Demo.sublime-settings'', other_lines),
      (''Packages/Default/Preferences.sublime-settings'', pref_lines)]"

definition demo_find :: "string \<Rightarrow> string list" where
  "demo_find fname =
     (if fname = ''Demo.sublime-settings''
      then [''Packages/Demo/Demo.sublime-settings'', ''Packages/User/Demo.sublime-settings'',
            ''Packages/Broken/Demo.sublime-settings'', ''Packages/Other/Demo.sublime-settings'']
      else if fname = ''Demo.sublime-syntax'' then [''Packages/Demo/Demo.sublime-syntax'']
      else if fname = ''Preferences.sublime-settings''
      then [''Packages/Default/Preferences.sublime-settings'']
      else [])"

definition demo_host :: "string host" where
  "demo_host =
     \<lparr>sublime_find_resources = demo_find,
      sublime_load_resource =
        (\<lambda>r. case map_of demo_resources r of
                None \<Rightarrow> Inl (OtherError ''IOError'')
              | Some ls \<Rightarrow> Inr (join [newline] ls)),
      sublime_decode_value = demo_decode,
      textwrap_dedent = dedent,
      builtin_int = decimal_int,
      builtin_float = (\<lambda>s. if s = ''1.5'' then Some s else None),
      builtin_format = (\<lambda>v. ''?'')\<rparr>"

text \<open>The state of the demo installation after the scan.\<close>

definition demo_settings :: "string known_settings" where
  "demo_settings = load_settings demo_host ''Demo.sublime-settings'' fresh_settings"


text \<open>
  Modelled from the spec: \<^verbatim>\<open>to_completion\<close> of a node set is not among the sources. For
  concrete runs it offers one item per node, triggered by the node's name; nothing is
  known of the other fields, which stay empty.
\<close>

definition node_completions :: "scope_node list \<Rightarrow> completion_item list" where
  "node_completions nodes =
     map (\<lambda>node. \<lparr>trigger = name node, annotation = [], kind = ([], [], []), details = []\<rparr>) nodes"

text \<open>
  A view of a syntax definition whose root scope is \<^verbatim>\<open>source.demo\<close>; the cursor stands at
  the end of a line that reads \<^verbatim>\<open>scope: comment.foo.bar\<close>.
\<close>

definition demo_view :: view where
  "demo_view =
     \<lparr>window_truthy = True,
      rowcol = (\<lambda>point. (3, 28)),
      line_text = (\<lambda>point. ''    - scope: comment.foo.bar''),
      base_scope_regions = [''source.demo'']\<rparr>"

definition demo_view_line :: view where
  "demo_view_line =
     demo_view\<lparr>rowcol := (\<lambda>point. (3, 13)), line_text := (\<lambda>point. ''comment.line.'')\<rparr>"

definition demo_listener :: listener where
  "demo_listener = \<lparr>base_suffix = None, status_bar = [], printed = []\<rparr>"


text \<open>
  What the loop does with a line, read off the line alone. The flag says whether the line
  is reached inside a block comment. A content line is one that is appended to
  \<^verbatim>\<open>content\<close>; a key line is a content line at whose start, after stripping, the regular
  expression matches.
\<close>

definition is_content_line :: "bool \<Rightarrow> string \<Rightarrow> bool" where
  "is_content_line ic line = (\<not> ic \<and> \<not> is_blank_line line \<and> \<not> is_comment_line line)"

definition is_key_line :: "bool \<Rightarrow> string \<Rightarrow> bool" where
  "is_key_line ic line = (is_content_line ic line \<and> key_match (strip line) \<noteq> None)"

text \<open>Whether the next line is reached inside a block comment.\<close>

definition line_in_comment :: "bool \<Rightarrow> string \<Rightarrow> bool" where
  "line_in_comment ic line =
     (if ic then \<not> endswith (strip line) ''*/'' else startswith (strip line) ''/*'')"

text \<open>
  The comment text a line contributes: inside a block comment its closing line without
  the trailing \<^verbatim>\<open>*/\<close> (if anything is left), a line without its leading \<^verbatim>\<open>* \<close>, or the line
  as it is; outside, what follows \<^verbatim>\<open>/*\<close> and its asterisks (if anything), or what follows
  \<^verbatim>\<open>//\<close> unless that ends with \<^verbatim>\<open>//\<close>. Blank lines and content lines contribute nothing.
\<close>

definition line_contribution :: "bool \<Rightarrow> string \<Rightarrow> string list" where
  "line_contribution ic line =
     (let stripped = strip line in
      if ic then
        (if endswith stripped ''*/'' then
           (let line' = rstrip_chars [CHR ''*'', CHR ''/'', CHR '' '', tab] line
            in if line' \<noteq> [] then [line'] else [])
         else if startswith stripped ''* '' then [drop 2 stripped]
         else [line])
      else if startswith stripped ''/*'' then
        (let stripped' = lstrip_chars ''*'' (drop 2 stripped)
         in if stripped' \<noteq> [] then [stripped'] else [])
      else if startswith stripped ''//'' then
        (let stripped' = drop 2 stripped
         in if stripped' = [] \<or> \<not> endswith stripped' ''//'' then [stripped'] else [])
      else [])"

text \<open>The contributions of a run of lines, in order; the flag after the run; and whether
  the run has no key line.\<close>

fun collect :: "bool \<Rightarrow> string list \<Rightarrow> string list" where
  "collect ic [] = []"
| "collect ic (l # ls) = line_contribution ic l @ collect (line_in_comment ic l) ls"

fun in_comment_after :: "bool \<Rightarrow> string list \<Rightarrow> bool" where
  "in_comment_after ic [] = ic"
| "in_comment_after ic (l # ls) = in_comment_after (line_in_comment ic l) ls"

fun no_key_line :: "bool \<Rightarrow> string list \<Rightarrow> bool" where
  "no_key_line ic [] = True"
| "no_key_line ic (l # ls) = (\<not> is_key_line ic l \<and> no_key_line (line_in_comment ic l) ls)"

text \<open>The local variables of the parsing loop, without the table it writes.\<close>

definition locals :: "parse_state \<Rightarrow> string list \<times> string list \<times> bool" where
  "locals st = (content st, comment st, in_comment st)"

section \<open>Properties of the settings parser\<close>

lemma parse_line_plain:
  assumes "\<not> in_comment st" "\<not> is_blank_line l" "\<not> is_comment_line l"
  shows "content (parse_line h st l) = content st @ [l]" "\<not> in_comment (parse_line h st l)"
  using assms
  by (auto simp: parse_line_def is_blank_line_def is_comment_line_def Let_def split: option.splits)

lemma parse_lines_plain:
  "\<not> in_comment st \<Longrightarrow> \<forall>l \<in> set ls. \<not> is_blank_line l \<and> \<not> is_comment_line l \<Longrightarrow>
   content (parse_lines h st ls) = content st @ ls"
proof (induction ls arbitrary: st)
  case Nil
  then show ?case by simp
next
  case (Cons l ls)
  then show ?case by (simp add: parse_line_plain)
qed

lemma parse_line_content_plain:
  "x \<in> set (content (parse_line h st l)) \<Longrightarrow>
   x \<in> set (content st) \<or> (\<not> is_blank_line x \<and> \<not> is_comment_line x)"
  by (auto simp: parse_line_def is_blank_line_def is_comment_line_def Let_def
           split: option.splits if_splits)

lemma parse_lines_content_plain:
  "x \<in> set (content (parse_lines h st ls)) \<Longrightarrow>
   x \<in> set (content st) \<or> (\<not> is_blank_line x \<and> \<not> is_comment_line x)"
proof (induction ls arbitrary: st)
  case Nil
  then show ?case by simp
next
  case (Cons l ls)
  from Cons.IH [of "parse_line h st l"] Cons.prems
  show ?case using parse_line_content_plain [of x h st l] by auto
qed

lemma parse_line_locals:
  "locals st = locals st' \<Longrightarrow> locals (parse_line h st l) = locals (parse_line h st' l)"
  by (auto simp: parse_line_def locals_def Let_def split: option.splits)

lemma parse_lines_locals:
  "locals st = locals st' \<Longrightarrow> locals (parse_lines h st ls) = locals (parse_lines h st' ls)"
proof (induction ls arbitrary: st st')
  case Nil
  then show ?case by simp
next
  case (Cons l ls)
  have "locals (parse_line h st l) = locals (parse_line h st' l)"
    by (rule parse_line_locals [OF Cons.prems])
  from Cons.IH [OF this] show ?case by simp
qed

lemma parse_settings_result_indep:
  "snd (parse_settings h cm ls) = snd (parse_settings h cm' ls)"
proof -
  have "locals (parse_lines h (parse_start cm) ls) = locals (parse_lines h (parse_start cm') ls)"
    by (rule parse_lines_locals) (simp add: locals_def parse_start_def)
  then show ?thesis by (simp add: parse_settings_def locals_def Let_def)
qed

lemma defaults_step:
  "defaults (load_resource_step h s r) = merge_items (defaults s) (resource_entries h r)"
proof (cases "is_ignored r")
  case True
  then show ?thesis by (simp add: load_resource_step_def resource_entries_def)
next
  case False
  show ?thesis
  proof (cases "sublime_load_resource h r")
    case (Inl e)
    with False show ?thesis
      by (simp add: load_resource_step_def resource_entries_def try_resource_def Let_def)
  next
    case (Inr body)
    obtain cm res where p: "parse_settings h (comments s) (splitlines body) = (cm, res)"
      by (cases "parse_settings h (comments s) (splitlines body)")
    have res: "snd (parse_settings h Map.empty (splitlines body)) = res"
      using parse_settings_result_indep [of h Map.empty "splitlines body" "comments s"] p by simp
    show ?thesis using False Inr p res
      by (auto simp: load_resource_step_def resource_entries_def try_resource_def Let_def
               split: sum.splits pyval.splits)
  qed
qed

lemma merge_items_lookup:
  "merge_items d kvs k = (case d k of Some v \<Rightarrow> Some v | None \<Rightarrow> map_of kvs k)"
proof (induction kvs arbitrary: d)
  case Nil
  then show ?case by (simp split: option.splits)
next
  case (Cons kv kvs)
  obtain k' v' where kv: "kv = (k', v')" by (cases kv)
  show ?case unfolding kv
    by (simp add: Cons.IH setdefault_def split: option.splits)
qed

lemma defaults_load_resources_Some:
  "defaults s k = Some v \<Longrightarrow> defaults (load_resources h s rs) k = Some v"
proof (induction rs arbitrary: s)
  case Nil
  then show ?case by simp
next
  case (Cons r rs)
  have "defaults (load_resource_step h s r) k = Some v"
    using Cons.prems by (simp add: defaults_step merge_items_lookup)
  then show ?case using Cons.IH by simp
qed

lemma defaults_load_resources_None:
  "defaults s k = None \<Longrightarrow> \<forall>r \<in> set rs. map_of (resource_entries h r) k = None \<Longrightarrow>
   defaults (load_resources h s rs) k = None"
proof (induction rs arbitrary: s)
  case Nil
  then show ?case by simp
next
  case (Cons r rs)
  have "defaults (load_resource_step h s r) k = None"
    using Cons.prems by (simp add: defaults_step merge_items_lookup)
  then show ?case using Cons.IH Cons.prems by simp
qed

lemma defaults_load_resources_first:
  "defaults s k = None \<Longrightarrow> i < length rs \<Longrightarrow> map_of (resource_entries h (rs ! i)) k = Some v \<Longrightarrow>
   \<forall>j<i. map_of (resource_entries h (rs ! j)) k = None \<Longrightarrow>
   defaults (load_resources h s rs) k = Some v"
proof (induction rs arbitrary: s i)
  case Nil
  then show ?case by simp
next
  case (Cons r rs)
  show ?case
  proof (cases i)
    case 0
    have "defaults (load_resource_step h s r) k = Some v"
      using Cons.prems 0 by (simp add: defaults_step merge_items_lookup)
    then show ?thesis using defaults_load_resources_Some by simp
  next
    case (Suc n)
    have "map_of (resource_entries h r) k = None"
      using Cons.prems(4) Suc by auto
    then have none: "defaults (load_resource_step h s r) k = None"
      using Cons.prems(1) by (simp add: defaults_step merge_items_lookup)
    have "\<forall>j<n. map_of (resource_entries h (rs ! j)) k = None"
      using Cons.prems(4) Suc by auto
    then show ?thesis
      using Cons.IH [OF none, of n] Cons.prems Suc by simp
  qed
qed

lemmas string_ops = strip_def is_space_def startswith_def endswith_def key_match_def dquote_def
  newline_def backslash_def tab_def lstrip_chars_def rstrip_chars_def

lemma demo_plain: "list_all (\<lambda>l. \<not> is_blank_line l \<and> \<not> is_comment_line l) demo_content"
  by (simp add: demo_content_def is_blank_line_def is_comment_line_def string_ops)

lemma demo_lines_content: "content (parse_lines h (parse_start cm) demo_lines) = demo_content"
  by (simp add: demo_lines_def demo_content_def parse_start_def parse_line_def string_ops)

lemma other_lines_content: "content (parse_lines h (parse_start cm) other_lines) = other_lines"
  by (simp add: other_lines_def parse_start_def parse_line_def string_ops)

lemma pref_lines_content: "content (parse_lines h (parse_start cm) pref_lines) = pref_lines"
  by (simp add: pref_lines_def parse_start_def parse_line_def string_ops)

lemma broken_lines_content: "content (parse_lines h (parse_start cm) broken_lines) = [''\"broken\": ?'']"
  by (simp add: broken_lines_def parse_start_def parse_line_def string_ops)

lemma splitlines_demo:
  "splitlines (join [newline] demo_lines) = demo_lines"
  "splitlines (join [newline] other_lines) = other_lines"
  "splitlines (join [newline] pref_lines) = pref_lines"
  "splitlines (join [newline] broken_lines) = broken_lines"
  by (simp_all add: splitlines_def demo_lines_def other_lines_def pref_lines_def broken_lines_def
        newline_def is_linebreak_def)

lemma demo_ignored:
  "\<not> is_ignored ''Packages/Demo/Demo.sublime-settings''"
  "is_ignored ''Packages/User/Demo.sublime-settings''"
  "\<not> is_ignored ''Packages/Broken/Demo.sublime-settings''"
  "\<not> is_ignored ''Packages/Other/Demo.sublime-settings''"
  "\<not> is_ignored ''Packages/Default/Preferences.sublime-settings''"
  by (simp_all add: is_ignored_def ignored_patterns_def startswith_def)

lemma demo_load:
  "sublime_load_resource demo_host ''Packages/Demo/Demo.sublime-settings'' = Inr (join [newline] demo_lines)"
  "sublime_load_resource demo_host ''Packages/Broken/Demo.sublime-settings'' = Inr (join [newline] broken_lines)"
  "sublime_load_resource demo_host ''Packages/Other/Demo.sublime-settings'' = Inr (join [newline] other_lines)"
  "sublime_load_resource demo_host ''Packages/Default/Preferences.sublime-settings'' = Inr (join [newline] pref_lines)"
  by (simp_all add: demo_host_def demo_resources_def)

lemma demo_decode_eval:
  "demo_decode (join [newline] demo_content) = Inr (PDict [(''size'', PStr ''small''), (''flag'', PBool True)])"
  "demo_decode (join [newline] other_lines) = Inr (PDict [(''size'', PStr ''large''),
                       (''triggers'', PList [PDict [(''selector'', PStr ''text.html'')]])])"
  "demo_decode (join [newline] pref_lines) = Inr (PDict [(''font_size'', PInt 10)])"
  "demo_decode ''\"broken\": ?'' = Inl ValueError"
  by (simp_all add: demo_decode_def demo_content_def other_lines_def pref_lines_def newline_def)

lemma demo_decode_host: "sublime_decode_value demo_host = demo_decode"
  by (simp add: demo_host_def)

lemma demo_entries:
  "resource_entries demo_host ''Packages/Demo/Demo.sublime-settings''
     = [(''size'', PStr ''small''), (''flag'', PBool True)]"
  "resource_entries demo_host ''Packages/User/Demo.sublime-settings'' = []"
  "resource_entries demo_host ''Packages/Broken/Demo.sublime-settings'' = []"
  "resource_entries demo_host ''Packages/Other/Demo.sublime-settings''
     = [(''size'', PStr ''large''), (''triggers'', PList [PDict [(''selector'', PStr ''text.html'')]])]"
  "resource_entries demo_host ''Packages/Default/Preferences.sublime-settings'' = [(''font_size'', PInt 10)]"
  by (simp_all add: resource_entries_def demo_ignored demo_load splitlines_demo parse_settings_def
        demo_lines_content other_lines_content pref_lines_content broken_lines_content
        demo_decode_host demo_decode_eval)

lemma demo_collect:
  "collect_resources demo_host ''Demo.sublime-settings'' =
     [''Packages/Demo/Demo.sublime-settings'', ''Packages/User/Demo.sublime-settings'',
      ''Packages/Broken/Demo.sublime-settings'', ''Packages/Other/Demo.sublime-settings'',
      ''Packages/Default/Preferences.sublime-settings'']"
  by (simp add: collect_resources_def is_syntax_specific_def splitext_root_def rfind_def
        syntax_file_exts_def demo_host_def demo_find_def PREF_FILE_def)

text \<open>
  Claim C8. Comment stripping is idempotent on already-stripped text: when no line is
  blank and no line is a comment line, the content lines the parser keeps are exactly the
  input lines; so running the pass on its own output changes nothing (second conjunct,
  for any input at all).
\<close>

theorem comment_stripping_idempotent:
  "((\<forall>l \<in> set ls. \<not> is_blank_line l \<and> \<not> is_comment_line l) \<longrightarrow>
      content (parse_lines h (parse_start cm) ls) = ls)
   \<and> content (parse_lines h (parse_start cm') (content (parse_lines h (parse_start cm) ls)))
       = content (parse_lines h (parse_start cm) ls)"
proof -
  have start: "\<not> in_comment (parse_start c)" "content (parse_start c) = []" for c
    by (simp_all add: parse_start_def)
  have a: "(\<forall>l \<in> set xs. \<not> is_blank_line l \<and> \<not> is_comment_line l) \<Longrightarrow>
      content (parse_lines h (parse_start c) xs) = xs" for xs c
    using parse_lines_plain [of "parse_start c" xs h] start by simp
  have "\<forall>x \<in> set (content (parse_lines h (parse_start cm) ls)). \<not> is_blank_line x \<and> \<not> is_comment_line x"
    using parse_lines_content_plain [of _ h "parse_start cm" ls] start by auto
  then show ?thesis using a by blast
qed

theorem comment_stripping_idempotent_witness:
  "list_all (\<lambda>l. \<not> is_blank_line l \<and> \<not> is_comment_line l) demo_content
   \<and> content (parse_lines demo_host (parse_start Map.empty) demo_content) = demo_content
   \<and> content (parse_lines demo_host (parse_start Map.empty) demo_lines) = demo_content
   \<and> content (parse_lines demo_host (parse_start Map.empty)
        (content (parse_lines demo_host (parse_start Map.empty) demo_lines))) = demo_content"
proof -
  have p: "\<forall>l \<in> set demo_content. \<not> is_blank_line l \<and> \<not> is_comment_line l"
    using demo_plain by (simp only: list_all_iff)
  from comment_stripping_idempotent [of demo_content demo_host Map.empty Map.empty] p
  have a: "content (parse_lines demo_host (parse_start Map.empty) demo_content) = demo_content"
    by blast
  have b: "content (parse_lines demo_host (parse_start Map.empty) demo_lines) = demo_content"
    by (rule demo_lines_content)
  from demo_plain a b show ?thesis by (simp only: simp_thms)
qed

text \<open>
  Claim C1. Merging into \<^verbatim>\<open>defaults\<close> is first-write-wins. An entry that is there stays
  as it is, through one resource and through the whole scan. A key that is not there yet
  gets the value from the earliest resource of the scan order that defines it (resource
  \<open>i\<close> defines it and no resource before \<open>i\<close> does), and stays undefined when no resource
  defines it.
\<close>

theorem load_settings_first_write_wins:
  "(defaults s k = Some v \<longrightarrow>
      defaults (load_resource_step h s r) k = Some v
      \<and> defaults (load_settings h filename s) k = Some v)
   \<and> (defaults s k = None \<and> i < length (collect_resources h filename)
        \<and> map_of (resource_entries h (collect_resources h filename ! i)) k = Some v
        \<and> (\<forall>j<i. map_of (resource_entries h (collect_resources h filename ! j)) k = None)
      \<longrightarrow> defaults (load_settings h filename s) k = Some v)
   \<and> (defaults s k = None
        \<and> (\<forall>r \<in> set (collect_resources h filename). map_of (resource_entries h r) k = None)
      \<longrightarrow> defaults (load_settings h filename s) k = None)"
  unfolding load_settings_def
  using defaults_load_resources_Some [of s k v h "[r]"]
        defaults_load_resources_Some [of s k v h "collect_resources h filename"]
        defaults_load_resources_first [of s k i "collect_resources h filename" h v]
        defaults_load_resources_None [of s k "collect_resources h filename" h]
  by auto

theorem load_settings_first_write_wins_witness:
  "defaults (fresh_settings :: string known_settings) ''size'' = None
   \<and> map_of (resource_entries demo_host (collect_resources demo_host ''Demo.sublime-settings'' ! 0)) ''size''
       = Some (PStr ''small'')
   \<and> map_of (resource_entries demo_host (collect_resources demo_host ''Demo.sublime-settings'' ! 3)) ''size''
       = Some (PStr ''large'')
   \<and> defaults (load_settings demo_host ''Demo.sublime-settings'' fresh_settings) ''size'' = Some (PStr ''small'')
   \<and> defaults (load_settings demo_host ''Demo.sublime-settings''
        (load_settings demo_host ''Demo.sublime-settings'' fresh_settings)) ''size'' = Some (PStr ''small'')
   \<and> defaults (load_settings demo_host ''Demo.sublime-settings'' fresh_settings) ''missing'' = None"
proof -
  let ?rs = "collect_resources demo_host ''Demo.sublime-settings''"
  let ?s = "fresh_settings :: string known_settings"
  have none: "defaults ?s k = None" for k by (simp add: fresh_settings_def)
  have first: "map_of (resource_entries demo_host (?rs ! 0)) ''size'' = Some (PStr ''small'')"
    by (simp add: demo_collect demo_entries)
  have later: "map_of (resource_entries demo_host (?rs ! 3)) ''size'' = Some (PStr ''large'')"
    by (simp add: demo_collect demo_entries)
  have len: "0 < length ?rs" by (simp add: demo_collect)
  have a: "defaults (load_settings demo_host ''Demo.sublime-settings'' ?s) ''size'' = Some (PStr ''small'')"
    using load_settings_first_write_wins [of ?s "''size''" "PStr ''small''" demo_host undefined
            "''Demo.sublime-settings''" 0] none first len
    by simp
  have b: "defaults (load_settings demo_host ''Demo.sublime-settings''
        (load_settings demo_host ''Demo.sublime-settings'' ?s)) ''size'' = Some (PStr ''small'')"
    using load_settings_first_write_wins [of "load_settings demo_host ''Demo.sublime-settings'' ?s"
            "''size''" "PStr ''small''" demo_host undefined "''Demo.sublime-settings''" 0] a
    by simp
  have "\<forall>r \<in> set ?rs. map_of (resource_entries demo_host r) ''missing'' = None"
    by (simp add: demo_collect demo_entries)
  then have c: "defaults (load_settings demo_host ''Demo.sublime-settings'' ?s) ''missing'' = None"
    using load_settings_first_write_wins [of ?s "''missing''" undefined demo_host undefined
            "''Demo.sublime-settings''" 0] none
    by simp
  show ?thesis using none first later a b c by simp
qed

lemma try_resource_logged: "logged (fst (try_resource h s r)) = logged s @ [Parsing r]"
  by (auto simp: try_resource_def Let_def split: sum.splits prod.splits pyval.splits)

lemma try_resource_error_indep: "snd (try_resource h s r) = snd (try_resource h s' r)"
proof (cases "sublime_load_resource h r")
  case (Inl e)
  then show ?thesis by (simp add: try_resource_def Let_def)
next
  case (Inr body)
  obtain cm res where p: "parse_settings h (comments s) (splitlines body) = (cm, res)"
    by (cases "parse_settings h (comments s) (splitlines body)")
  obtain cm' res' where p': "parse_settings h (comments s') (splitlines body) = (cm', res')"
    by (cases "parse_settings h (comments s') (splitlines body)")
  have "res = res'"
    using parse_settings_result_indep [of h "comments s" "splitlines body" "comments s'"] p p'
    by simp
  then show ?thesis using Inr p p'
    by (auto simp: try_resource_def Let_def split: sum.splits pyval.splits)
qed

lemma try_resource_entries:
  "\<not> is_ignored r \<Longrightarrow> snd (try_resource h s r) = Some e \<Longrightarrow> resource_entries h r = []"
proof (cases "sublime_load_resource h r")
  case (Inl e)
  then show ?thesis by (simp add: resource_entries_def)
next
  case (Inr body)
  assume a: "\<not> is_ignored r" "snd (try_resource h s r) = Some e"
  obtain cm res where p: "parse_settings h (comments s) (splitlines body) = (cm, res)"
    by (cases "parse_settings h (comments s) (splitlines body)")
  have res: "snd (parse_settings h Map.empty (splitlines body)) = res"
    using parse_settings_result_indep [of h Map.empty "splitlines body" "comments s"] p by simp
  show ?thesis using a Inr p res
    by (auto simp: resource_entries_def try_resource_def Let_def split: sum.splits pyval.splits)
qed

lemma load_resources_append:
  "load_resources h s (xs @ ys) = load_resources h (load_resources h s xs) ys"
  by (induction xs arbitrary: s) simp_all

lemma defaults_load_resources_cong:
  "defaults s = defaults s' \<Longrightarrow> defaults (load_resources h s rs) = defaults (load_resources h s' rs)"
proof (induction rs arbitrary: s s')
  case Nil
  then show ?case by simp
next
  case (Cons r rs)
  have "defaults (load_resource_step h s r) = defaults (load_resource_step h s' r)"
    using Cons.prems by (simp add: defaults_step)
  from Cons.IH [OF this] show ?case by simp
qed

lemma scanned_append: "scanned (xs @ ys) = scanned xs @ scanned ys"
  by (induction xs rule: scanned.induct) simp_all

lemma logged_step:
  "logged (load_resource_step h s r) =
     (if is_ignored r then logged s
      else case snd (try_resource h s r) of
             None \<Rightarrow> logged s @ [Parsing r]
           | Some e \<Rightarrow> logged s @ [Parsing r, ErrorParsing r e])"
  using try_resource_logged [of h s r]
  by (cases "try_resource h s r") (auto simp: load_resource_step_def split: option.splits)

lemma scanned_step:
  "scanned (logged (load_resource_step h s r)) =
     scanned (logged s) @ (if is_ignored r then [] else [r])"
  by (simp add: logged_step scanned_append split: option.splits)

lemma scanned_load_resources:
  "scanned (logged (load_resources h s rs)) = scanned (logged s) @ filter (\<lambda>r. \<not> is_ignored r) rs"
  by (induction rs arbitrary: s) (simp_all add: scanned_step)

text \<open>
  Claim C3. A resource whose \<^verbatim>\<open>try\<close> body raises (while loading, decoding, or reading
  \<^verbatim>\<open>.items()\<close>) is logged and skipped: the handler appends one error record after the
  resource's \<^verbatim>\<open>parsing\<close> record, \<^verbatim>\<open>defaults\<close> is what it was, the whole scan ends with the
  \<^verbatim>\<open>defaults\<close> it would have without that resource, and every resource behind it that is
  not ignored is still entered. \<open>load_settings\<close> returns a state for every host and
  input: no exception of a resource leaves the loop.
\<close>

theorem failing_resource_is_skipped:
  assumes "\<not> is_ignored r"
    and "snd (try_resource h s r) = Some e"
    and "collect_resources h filename = before @ r # rest"
  shows "logged (load_resource_step h s r) = logged s @ [Parsing r, ErrorParsing r e]
       \<and> defaults (load_resource_step h s r) = defaults s
       \<and> defaults (load_settings h filename s0) = defaults (load_resources h s0 (before @ rest))
       \<and> scanned (logged (load_settings h filename s0))
           = scanned (logged s0) @ filter (\<lambda>x. \<not> is_ignored x) before @ r
               # filter (\<lambda>x. \<not> is_ignored x) rest"
proof -
  have entries: "resource_entries h r = []"
    using assms(1,2) by (rule try_resource_entries)
  have skip: "defaults (load_resource_step h t r) = defaults t" for t
    by (simp add: defaults_step entries)
  have "defaults (load_resources h s0 (before @ r # rest))
          = defaults (load_resources h (load_resource_step h (load_resources h s0 before) r) rest)"
    by (simp add: load_resources_append)
  also have "\<dots> = defaults (load_resources h (load_resources h s0 before) rest)"
    by (rule defaults_load_resources_cong) (rule skip)
  finally have whole: "defaults (load_resources h s0 (before @ r # rest))
          = defaults (load_resources h s0 (before @ rest))"
    by (simp add: load_resources_append)
  show ?thesis
    using assms whole skip [of s]
    by (simp add: logged_step load_settings_def scanned_load_resources)
qed

text \<open>
  Claim C6. The resources whose \<^verbatim>\<open>try\<close> body is entered are, in this order: those
  named \<open>filename\<close>, those named \<open>filename\<close> with \<^verbatim>\<open>-hints\<close>, and, when a
  \<^verbatim>\<open>.sublime-syntax\<close> or \<^verbatim>\<open>.tmLanguage\<close> resource with the same base name exists, those named
  \<^verbatim>\<open>Preferences.sublime-settings\<close> and \<^verbatim>\<open>Preferences.sublime-settings-hints\<close>; without every
  resource whose path contains \<^verbatim>\<open>/User/\<close> or \<^verbatim>\<open>/Preferences Editor/\<close>.
\<close>

theorem scanned_resources:
  "scanned (logged (load_settings h filename s)) =
     scanned (logged s) @
     filter (\<lambda>r. \<not> (str_contains ''/User/'' r \<or> str_contains ''/Preferences Editor/'' r))
       (sublime_find_resources h filename @ sublime_find_resources h (filename @ ''-hints'') @
        (if sublime_find_resources h (splitext_root filename @ ''.sublime-syntax'') = []
            \<and> sublime_find_resources h (splitext_root filename @ ''.tmLanguage'') = []
         then []
         else sublime_find_resources h ''Preferences.sublime-settings''
                @ sublime_find_resources h ''Preferences.sublime-settings-hints''))"
proof -
  have ign: "is_ignored = (\<lambda>r. str_contains ''/User/'' r \<or> str_contains ''/Preferences Editor/'' r)"
    by (rule ext) (simp add: is_ignored_def ignored_patterns_def)
  show ?thesis
    unfolding load_settings_def scanned_load_resources ign
    by (simp add: collect_resources_def is_syntax_specific_def syntax_file_exts_def PREF_FILE_def
          Let_def)
qed

lemma parse_line_comments_mono:
  "self_comments st k = Some c \<Longrightarrow> self_comments (parse_line h st l) k = Some c"
  by (auto simp: parse_line_def Let_def split: option.splits)

lemma parse_lines_comments_mono:
  "self_comments st k = Some c \<Longrightarrow> self_comments (parse_lines h st ls) k = Some c"
proof (induction ls arbitrary: st)
  case Nil
  then show ?case by simp
next
  case (Cons l ls)
  from Cons.IH [OF parse_line_comments_mono [OF Cons.prems]] show ?case by simp
qed

lemma comments_try_resource:
  "comments (fst (try_resource h s r)) =
     (case sublime_load_resource h r of
        Inl e \<Rightarrow> comments s
      | Inr body \<Rightarrow> self_comments (parse_lines h (parse_start (comments s)) (splitlines body)))"
  by (auto simp: try_resource_def parse_settings_def Let_def split: sum.splits pyval.splits)

lemma comments_step:
  "comments (load_resource_step h s r) =
     (if is_ignored r then comments s else comments (fst (try_resource h s r)))"
  by (cases "try_resource h s r") (auto simp: load_resource_step_def split: option.splits)

lemma comments_step_mono:
  "comments s k = Some c \<Longrightarrow> comments (load_resource_step h s r) k = Some c"
  using parse_lines_comments_mono [of "parse_start (comments s)" k c h]
  by (auto simp: comments_step comments_try_resource parse_start_def split: sum.splits)

lemma comments_load_resources_mono:
  "comments s k = Some c \<Longrightarrow> comments (load_resources h s rs) k = Some c"
proof (induction rs arbitrary: s)
  case Nil
  then show ?case by simp
next
  case (Cons r rs)
  from Cons.IH [OF comments_step_mono [OF Cons.prems]] show ?case by simp
qed

text \<open>
  Claim C9. Skipping a resource is not atomic over the comments table. When the decode
  of the content raises, \<^verbatim>\<open>self.comments\<close> is the table the parsing loop has written (every
  comment it harvested for a key that had none), \<^verbatim>\<open>defaults\<close> is unchanged, the error is
  logged, and these comments stay through the rest of the scan.
\<close>

theorem comments_survive_failed_decode:
  assumes "\<not> is_ignored r"
    and "sublime_load_resource h r = Inr body"
    and "snd (parse_settings h (comments s) (splitlines body)) = Inl e"
  shows "comments (load_resource_step h s r)
           = self_comments (parse_lines h (parse_start (comments s)) (splitlines body))
       \<and> defaults (load_resource_step h s r) = defaults s
       \<and> logged (load_resource_step h s r) = logged s @ [Parsing r, ErrorParsing r e]
       \<and> (\<forall>k c. comments (load_resource_step h s r) k = Some c \<longrightarrow>
             comments (load_resources h (load_resource_step h s r) rest) k = Some c)"
proof -
  have err: "snd (try_resource h s r) = Some e"
    using assms(2,3)
    by (cases "parse_settings h (comments s) (splitlines body)")
       (simp add: try_resource_def Let_def)
  have "resource_entries h r = []"
    using assms(1) err by (rule try_resource_entries)
  then have d: "defaults (load_resource_step h s r) = defaults s"
    by (simp add: defaults_step)
  have c: "comments (load_resource_step h s r)
             = self_comments (parse_lines h (parse_start (comments s)) (splitlines body))"
    using assms(1,2) by (simp add: comments_step comments_try_resource)
  have l: "logged (load_resource_step h s r) = logged s @ [Parsing r, ErrorParsing r e]"
    using assms(1) err by (simp add: logged_step)
  have m: "\<forall>k c. comments (load_resource_step h s r) k = Some c \<longrightarrow>
             comments (load_resources h (load_resource_step h s r) rest) k = Some c"
    using comments_load_resources_mono by blast
  from c d l m show ?thesis by blast
qed

lemma dedent_not_json: "dedent '' Not JSON'' = ''Not JSON''"
  by (simp add: dedent_def split_def is_blank_def tab_def newline_def startswith_def)

lemma broken_lines_comments:
  "self_comments (parse_lines demo_host (parse_start Map.empty) broken_lines) ''broken'' = Some ''Not JSON''"
  by (simp add: broken_lines_def parse_start_def parse_line_def string_ops demo_host_def
        dedent_not_json)

lemma demo_try_broken:
  "snd (try_resource demo_host s ''Packages/Broken/Demo.sublime-settings'') = Some ValueError"
  by (simp add: try_resource_def demo_load splitlines_demo parse_settings_def broken_lines_content
        demo_decode_host demo_decode_eval)

theorem failing_resource_is_skipped_witness:
  "\<not> is_ignored ''Packages/Broken/Demo.sublime-settings''
   \<and> snd (try_resource demo_host fresh_settings ''Packages/Broken/Demo.sublime-settings'') = Some ValueError
   \<and> logged (load_resource_step demo_host fresh_settings ''Packages/Broken/Demo.sublime-settings'')
       = [Parsing ''Packages/Broken/Demo.sublime-settings'',
          ErrorParsing ''Packages/Broken/Demo.sublime-settings'' ValueError]
   \<and> defaults (load_resource_step demo_host fresh_settings ''Packages/Broken/Demo.sublime-settings'')
       = Map.empty
   \<and> defaults (load_settings demo_host ''Demo.sublime-settings'' fresh_settings)
       = defaults (load_resources demo_host fresh_settings
           [''Packages/Demo/Demo.sublime-settings'', ''Packages/User/Demo.sublime-settings'',
            ''Packages/Other/Demo.sublime-settings'', ''Packages/Default/Preferences.sublime-settings''])
   \<and> scanned (logged (load_settings demo_host ''Demo.sublime-settings'' fresh_settings))
       = [''Packages/Demo/Demo.sublime-settings'', ''Packages/Broken/Demo.sublime-settings'',
          ''Packages/Other/Demo.sublime-settings'', ''Packages/Default/Preferences.sublime-settings'']"
  using failing_resource_is_skipped [of "''Packages/Broken/Demo.sublime-settings''" demo_host
          fresh_settings ValueError "''Demo.sublime-settings''"
          "[''Packages/Demo/Demo.sublime-settings'', ''Packages/User/Demo.sublime-settings'']"
          "[''Packages/Other/Demo.sublime-settings'', ''Packages/Default/Preferences.sublime-settings'']"
          fresh_settings]
        demo_try_broken [of fresh_settings] demo_collect
  by (simp add: demo_ignored fresh_settings_def)

theorem scanned_resources_witness:
  "scanned (logged (load_settings demo_host ''Demo.sublime-settings'' fresh_settings))
     = [''Packages/Demo/Demo.sublime-settings'', ''Packages/Broken/Demo.sublime-settings'',
        ''Packages/Other/Demo.sublime-settings'', ''Packages/Default/Preferences.sublime-settings'']"
  using scanned_resources [of demo_host "''Demo.sublime-settings''" fresh_settings]
  by (simp add: fresh_settings_def demo_host_def demo_find_def splitext_root_def rfind_def
        startswith_def)

theorem comments_survive_failed_decode_witness:
  "\<not> is_ignored ''Packages/Broken/Demo.sublime-settings''
   \<and> sublime_load_resource demo_host ''Packages/Broken/Demo.sublime-settings''
       = Inr (join [newline] broken_lines)
   \<and> snd (parse_settings demo_host Map.empty broken_lines) = Inl ValueError
   \<and> comments (fresh_settings :: string known_settings) ''broken'' = None
   \<and> comments (load_resource_step demo_host fresh_settings ''Packages/Broken/Demo.sublime-settings'')
        ''broken'' = Some ''Not JSON''
   \<and> defaults (load_resource_step demo_host fresh_settings ''Packages/Broken/Demo.sublime-settings'')
       = Map.empty
   \<and> comments (load_resources demo_host
         (load_resource_step demo_host fresh_settings ''Packages/Broken/Demo.sublime-settings'')
         [''Packages/Other/Demo.sublime-settings'', ''Packages/Default/Preferences.sublime-settings''])
        ''broken'' = Some ''Not JSON''"
proof -
  have p: "snd (parse_settings demo_host (comments (fresh_settings :: string known_settings))
             (splitlines (join [newline] broken_lines))) = Inl ValueError"
    by (simp add: parse_settings_def splitlines_demo broken_lines_content demo_decode_host
          demo_decode_eval)
  have c: "comments (fresh_settings :: string known_settings) = Map.empty"
    by (simp add: fresh_settings_def)
  from comments_survive_failed_decode [OF demo_ignored(3) demo_load(2) p,
         of "[''Packages/Other/Demo.sublime-settings'', ''Packages/Default/Preferences.sublime-settings'']"]
  show ?thesis
    using p broken_lines_comments
    by (simp add: c demo_ignored demo_load splitlines_demo fresh_settings_def)
qed

lemma dedent_demo:
  "dedent (join [newline] ['' Demo settings'', '' Size: \"small\" or \"large\".''])
     = ''Demo settings'' @ [newline] @ ''Size: \"small\" or \"large\".''"
  "dedent '' Size: \"small\" or \"large\".'' = ''Size: \"small\" or \"large\".''"
  by (simp_all add: dedent_def split_def is_blank_def tab_def newline_def startswith_def)

lemma demo_lines_comments:
  "self_comments (parse_lines demo_host (parse_start Map.empty) demo_lines)
     = [''size'' \<mapsto> ''Demo settings'' @ [newline] @ ''Size: \"small\" or \"large\".'']"
  using dedent_demo(1)
  by (simp add: demo_lines_def parse_start_def parse_line_def string_ops demo_host_def)

text \<open>
  Claim C7, as stated, fails on the demo package's file. The line with the key
  \<^verbatim>\<open>size\<close> is preceded by one comment line; before that comes the content line \<^verbatim>\<open>{\<close>, and
  before that the header comment of the file. The text stored for \<^verbatim>\<open>size\<close> starts with the
  header comment: it is not the dedented text of the comment lines immediately preceding
  the key's line.
\<close>

theorem comment_block_counterexample:
  "demo_lines ! 2 = ''    // Size: \"small\" or \"large\".''
   \<and> demo_lines ! 3 = ''    \"size\": \"small\",''
   \<and> \<not> is_comment_line (demo_lines ! 1)
   \<and> self_comments (parse_lines demo_host (parse_start Map.empty) demo_lines) ''size''
       = Some (''Demo settings'' @ [newline] @ ''Size: \"small\" or \"large\".'')
   \<and> self_comments (parse_lines demo_host (parse_start Map.empty) demo_lines) ''size''
       \<noteq> Some (textwrap_dedent demo_host (join [newline] [drop 2 (strip (demo_lines ! 2))]))"
proof -
  have a: "demo_lines ! 2 = ''    // Size: \"small\" or \"large\".''"
    "demo_lines ! 3 = ''    \"size\": \"small\",''"
    "\<not> is_comment_line (demo_lines ! 1)"
    by (simp_all add: demo_lines_def is_comment_line_def string_ops)
  have b: "textwrap_dedent demo_host (join [newline] [drop 2 (strip (demo_lines ! 2))])
             = ''Size: \"small\" or \"large\".''"
    using dedent_demo(2) by (simp add: a demo_host_def string_ops)
  show ?thesis unfolding b using a by (simp add: demo_lines_comments newline_def)
qed

lemma demo_comments_loaded:
  "comments demo_settings
     = [''size'' \<mapsto> ''Demo settings'' @ [newline] @ ''Size: \"small\" or \"large\".'',
        ''broken'' \<mapsto> ''Not JSON'']"
proof -
  have other: "self_comments (parse_lines demo_host (parse_start cm) other_lines) = cm" for cm
    by (simp add: other_lines_def parse_start_def parse_line_def string_ops)
  have pref: "self_comments (parse_lines demo_host (parse_start cm) pref_lines) = cm" for cm
    by (simp add: pref_lines_def parse_start_def parse_line_def string_ops)
  have broken: "self_comments (parse_lines demo_host (parse_start cm) broken_lines)
                  = (if cm ''broken'' = None then cm(''broken'' \<mapsto> ''Not JSON'') else cm)" for cm
    by (simp add: broken_lines_def parse_start_def parse_line_def string_ops demo_host_def
          dedent_not_json)
  show ?thesis
    by (simp add: demo_settings_def load_settings_def demo_collect comments_step comments_try_resource
          demo_ignored demo_load splitlines_demo other pref broken demo_lines_comments
          fresh_settings_def)
qed











lemma demo_defaults_triggers:
  "defaults demo_settings ''triggers'' = Some (PList [PDict [(''selector'', PStr ''text.html'')]])"
  unfolding demo_settings_def load_settings_def
  by (rule defaults_load_resources_first [where i = 3])
     (simp_all add: fresh_settings_def demo_collect demo_entries numeral_3_eq_3 less_Suc_eq)

text \<open>
  Claim C4 on the demo installation. The key \<^verbatim>\<open>triggers\<close> has no comment and its default
  is a list that holds a dict. Nothing is read from a comment, the completions fall back
  to the default, and building the set of its members raises \<^verbatim>\<open>TypeError\<close>: no member is
  suggested.
\<close>

theorem list_of_dicts_default_raises:
  "comments demo_settings ''triggers'' = None
   \<and> defaults demo_settings ''triggers'' = Some (PList [PDict [(''selector'', PStr ''text.html'')]])
   \<and> completions_from_comment demo_host demo_settings ''triggers'' = Inr None
   \<and> completions_from_default demo_host demo_settings ''triggers'' = Inl TypeError
   \<and> value_completions_for demo_host [] [] demo_settings ''triggers'' = Inl TypeError"
  by (simp add: demo_comments_loaded demo_defaults_triggers value_completions_for_def
        completions_from_comment_def completions_from_default_def set_add_def
        format_completion_item_def)

lemma parse_line_in_comment:
  "in_comment (parse_line h st l) = line_in_comment (in_comment st) l"
  by (auto simp: parse_line_def line_in_comment_def is_blank_line_def startswith_def Let_def
           split: option.splits)

lemma parse_line_no_key:
  "\<not> is_key_line (in_comment st) l \<Longrightarrow>
   comment (parse_line h st l) = comment st @ line_contribution (in_comment st) l
   \<and> self_comments (parse_line h st l) = self_comments st"
  by (auto simp: parse_line_def line_contribution_def is_key_line_def is_content_line_def
        is_blank_line_def is_comment_line_def startswith_def Let_def split: option.splits)

lemma parse_line_key:
  "is_key_line (in_comment st) l \<Longrightarrow> key_match (strip l) = Some key \<Longrightarrow>
   comment (parse_line h st l) = []
   \<and> self_comments (parse_line h st l) =
       (if comment st \<noteq> [] \<and> self_comments st key = None
        then (self_comments st)(key \<mapsto> textwrap_dedent h (join [newline] (comment st)))
        else self_comments st)"
  by (auto simp: parse_line_def is_key_line_def is_content_line_def is_blank_line_def
        is_comment_line_def Let_def)

lemma parse_lines_in_comment:
  "in_comment (parse_lines h st ls) = in_comment_after (in_comment st) ls"
  by (induction ls arbitrary: st) (simp_all add: parse_line_in_comment)

lemma parse_lines_run:
  "no_key_line (in_comment st) ls \<Longrightarrow>
   comment (parse_lines h st ls) = comment st @ collect (in_comment st) ls
   \<and> self_comments (parse_lines h st ls) = self_comments st"
proof (induction ls arbitrary: st)
  case Nil
  then show ?case by simp
next
  case (Cons l ls)
  from Cons.prems have nk: "\<not> is_key_line (in_comment st) l"
    and rest: "no_key_line (in_comment (parse_line h st l)) ls"
    by (simp_all add: parse_line_in_comment)
  from Cons.IH [OF rest] parse_line_no_key [OF nk, of h]
  show ?case by (simp add: parse_line_in_comment)
qed

lemma parse_lines_append:
  "parse_lines h st (xs @ ys) = parse_lines h (parse_lines h st xs) ys"
  by (induction xs arbitrary: st) simp_all

lemma block_start:
  assumes "pre = [] \<or> (\<exists>pre' kl0. pre = pre' @ [kl0] \<and> is_key_line (in_comment_after False pre') kl0)"
  shows "comment (parse_lines h (parse_start cm) pre) = []
       \<and> in_comment (parse_lines h (parse_start cm) pre) = False"
proof (cases "pre = []")
  case True
  then show ?thesis by (simp add: parse_start_def)
next
  case False
  with assms obtain pre' kl0 where
    p: "pre = pre' @ [kl0]" and k: "is_key_line (in_comment_after False pre') kl0"
    by blast
  let ?st = "parse_lines h (parse_start cm) pre'"
  have ic: "in_comment ?st = in_comment_after False pre'"
    by (simp add: parse_lines_in_comment parse_start_def)
  from k ic have k': "is_key_line (in_comment ?st) kl0" by simp
  then obtain key where m: "key_match (strip kl0) = Some key"
    by (auto simp: is_key_line_def)
  from k' have "\<not> in_comment ?st" "\<not> startswith (strip kl0) ''/*''"
    by (simp_all add: is_key_line_def is_content_line_def is_comment_line_def)
  then have "in_comment (parse_line h ?st kl0) = False"
    by (simp add: parse_line_in_comment line_in_comment_def)
  with parse_line_key [OF k' m, of h] show ?thesis
    by (simp add: p parse_lines_append)
qed

text \<open>
  Claim C7, amended. Take a resource whose lines are \<open>pre\<close>, then a run \<open>mid\<close> without a
  key line, then a key line; \<open>pre\<close> is empty or ends with a key line, so the run starts at
  the beginning of the resource or behind the last line where the regular expression
  matched. In front of the key line the collected comment is what the lines of the run
  contribute, in order, whatever content lines stand between them; the table is as it
  was before the run. If the collected comment is not empty and the key has no comment
  yet, the key line stores its dedented join under the matched key; otherwise the table
  stays as it is. The collected comment is empty behind the key line. An entry of
  \<^verbatim>\<open>comments\<close> is never replaced during a scan.
\<close>

theorem comment_association:
  assumes "pre = [] \<or> (\<exists>pre' kl0. pre = pre' @ [kl0] \<and> is_key_line (in_comment_after False pre') kl0)"
    and "no_key_line False mid"
    and "is_key_line (in_comment_after False mid) kl"
    and "key_match (strip kl) = Some key"
  shows "comment (parse_lines h (parse_start cm) (pre @ mid)) = collect False mid
       \<and> self_comments (parse_lines h (parse_start cm) (pre @ mid))
           = self_comments (parse_lines h (parse_start cm) pre)
       \<and> self_comments (parse_lines h (parse_start cm) (pre @ mid @ [kl])) =
           (if collect False mid \<noteq> [] \<and> self_comments (parse_lines h (parse_start cm) pre) key = None
            then (self_comments (parse_lines h (parse_start cm) pre))
                   (key \<mapsto> textwrap_dedent h (join [newline] (collect False mid)))
            else self_comments (parse_lines h (parse_start cm) pre))
       \<and> comment (parse_lines h (parse_start cm) (pre @ mid @ [kl])) = []
       \<and> (\<forall>k c. comments s k = Some c \<longrightarrow> comments (load_settings h filename s) k = Some c)"
proof -
  let ?st0 = "parse_lines h (parse_start cm) pre"
  let ?st1 = "parse_lines h ?st0 mid"
  from block_start [OF assms(1), of h cm]
  have s0: "comment ?st0 = []" "in_comment ?st0 = False" by simp_all
  from assms(2) s0(2) have "no_key_line (in_comment ?st0) mid" by simp
  from parse_lines_run [OF this, of h] s0
  have s1: "comment ?st1 = collect False mid" "self_comments ?st1 = self_comments ?st0"
    by simp_all
  have "in_comment ?st1 = in_comment_after (in_comment ?st0) mid"
    by (rule parse_lines_in_comment)
  then have "in_comment ?st1 = in_comment_after False mid"
    by (simp only: s0(2))
  with assms(3) have k: "is_key_line (in_comment ?st1) kl" by simp
  from parse_line_key [OF k assms(4), of h] s1
  have s2: "comment (parse_line h ?st1 kl) = []"
    "self_comments (parse_line h ?st1 kl) =
       (if collect False mid \<noteq> [] \<and> self_comments ?st0 key = None
        then (self_comments ?st0)(key \<mapsto> textwrap_dedent h (join [newline] (collect False mid)))
        else self_comments ?st0)"
    by simp_all
  have m: "\<forall>k c. comments s k = Some c \<longrightarrow> comments (load_settings h filename s) k = Some c"
    unfolding load_settings_def using comments_load_resources_mono by blast
  have a1: "parse_lines h (parse_start cm) (pre @ mid) = ?st1"
    by (simp add: parse_lines_append)
  have a2: "parse_lines h (parse_start cm) (pre @ mid @ [kl]) = parse_line h ?st1 kl"
    by (simp add: parse_lines_append)
  show ?thesis
    unfolding a1 a2 using s1 s2 m by blast
qed

lemmas line_ops = is_key_line_def is_content_line_def is_blank_line_def is_comment_line_def
  line_in_comment_def line_contribution_def

lemma demo_block:
  "no_key_line False (take 3 demo_lines)"
  "in_comment_after False (take 3 demo_lines) = False"
  "collect False (take 3 demo_lines) = ['' Demo settings'', '' Size: \"small\" or \"large\".'']"
  "is_key_line False (demo_lines ! 3)"
  "key_match (strip (demo_lines ! 3)) = Some ''size''"
  "is_key_line False (demo_lines ! 4)"
  "key_match (strip (demo_lines ! 4)) = Some ''flag''"
  by (simp_all add: demo_lines_def line_ops string_ops)

theorem comment_association_witness:
  "no_key_line False (take 3 demo_lines)
   \<and> is_key_line (in_comment_after False (take 3 demo_lines)) (demo_lines ! 3)
   \<and> key_match (strip (demo_lines ! 3)) = Some ''size''
   \<and> collect False (take 3 demo_lines) = ['' Demo settings'', '' Size: \"small\" or \"large\".'']
   \<and> self_comments (parse_lines demo_host (parse_start Map.empty) (take 3 demo_lines @ [demo_lines ! 3]))
       = [''size'' \<mapsto> ''Demo settings'' @ [newline] @ ''Size: \"small\" or \"large\".'']
   \<and> take 4 demo_lines = take 3 demo_lines @ [demo_lines ! 3]
   \<and> is_key_line (in_comment_after False []) (demo_lines ! 4)
   \<and> key_match (strip (demo_lines ! 4)) = Some ''flag''
   \<and> self_comments (parse_lines demo_host (parse_start Map.empty) (take 4 demo_lines @ [demo_lines ! 4]))
       = self_comments (parse_lines demo_host (parse_start Map.empty) (take 4 demo_lines))
   \<and> comments demo_settings ''size''
       = Some (''Demo settings'' @ [newline] @ ''Size: \"small\" or \"large\".'')
   \<and> comments (load_settings demo_host ''Demo.sublime-settings'' demo_settings) ''size''
       = Some (''Demo settings'' @ [newline] @ ''Size: \"small\" or \"large\".'')"
proof -
  let ?mid = "take 3 demo_lines"
  have t4: "take 4 demo_lines = ?mid @ [demo_lines ! 3]"
    by (simp add: demo_lines_def)
  have k3: "is_key_line (in_comment_after False ?mid) (demo_lines ! 3)"
    using demo_block(2,4) by simp
  have k4: "is_key_line (in_comment_after False []) (demo_lines ! 4)"
    using demo_block(6) by simp
  have pre4: "take 4 demo_lines = [] \<or>
      (\<exists>pre' kl0. take 4 demo_lines = pre' @ [kl0] \<and> is_key_line (in_comment_after False pre') kl0)"
    using t4 k3 by blast
  have c: "comments demo_settings ''size''
             = Some (''Demo settings'' @ [newline] @ ''Size: \"small\" or \"large\".'')"
    by (simp add: demo_comments_loaded)
  have d: "textwrap_dedent demo_host (join [newline] (collect False ?mid))
             = ''Demo settings'' @ [newline] @ ''Size: \"small\" or \"large\".''"
    using dedent_demo(1) by (simp add: demo_block(3) demo_host_def)
  note w1 = comment_association [where pre = "[]" and mid = ?mid and kl = "demo_lines ! 3"
      and key = "''size''" and h = demo_host and cm = Map.empty and s = demo_settings
      and filename = "''Demo.sublime-settings''", OF _ demo_block(1) k3 demo_block(5)]
  note w2 = comment_association [where pre = "take 4 demo_lines" and mid = "[]"
      and kl = "demo_lines ! 4" and key = "''flag''" and h = demo_host and cm = Map.empty
      and s = demo_settings and filename = "''Demo.sublime-settings''", OF pre4 _ k4 demo_block(7)]
  have r1: "self_comments (parse_lines demo_host (parse_start Map.empty) (?mid @ [demo_lines ! 3]))
       = [''size'' \<mapsto> ''Demo settings'' @ [newline] @ ''Size: \"small\" or \"large\".'']"
    using w1 d by (simp add: parse_start_def demo_block(3))
  have r2: "self_comments (parse_lines demo_host (parse_start Map.empty) (take 4 demo_lines @ [demo_lines ! 4]))
       = self_comments (parse_lines demo_host (parse_start Map.empty) (take 4 demo_lines))"
    using w2 by simp
  have r3: "comments (load_settings demo_host ''Demo.sublime-settings'' demo_settings) ''size''
       = Some (''Demo settings'' @ [newline] @ ''Size: \"small\" or \"large\".'')"
    using w1 c by simp
  from demo_block(1) k3 demo_block(5) demo_block(3) r1 t4 k4 demo_block(7) r2 c r3
  show ?thesis by blast
qed

section \<open>Properties of the scope completions\<close>











lemma complete_scope_dotted:
  assumes "remdups (map (\<lambda>point. rpartition_last CHR '' '' (line_prefix v point)) locations)
             = [real_prefix]"
    and "1 < length (split CHR ''.'' real_prefix)"
    and "complete_base_scope package_name v L (last (split CHR ''.'' real_prefix)) = (base, L')"
  shows "complete_scope package_name heads to_completion v L locations =
      (case browse heads 0 (butlast (split CHR ''.'' real_prefix)) of
         Not_found i \<Rightarrow>
           Inr (Some base,
                status package_name
                  ([backtick] @ join ''.'' (take (Suc i) (split CHR ''.'' real_prefix)) @ [backtick]
                     @ '' not found in scope naming conventions'')
                  (window_truthy v) L')
       | No_nodes \<Rightarrow>
           Inr (Some base,
                status package_name
                  (''No nodes available in scope naming conventions after ''
                     @ [backtick] @ join ''.'' (butlast (split CHR ''.'' real_prefix)) @ [backtick])
                  (window_truthy v) L')
       | Walked nodes \<Rightarrow> Inr (Some (to_completion nodes @ base), L'))"
  using assms by (simp add: complete_scope_def Let_def)


lemma find_node_simps:
  "find_node [] token = None"
  "find_node (node # nodes) token = (if name node = token then Some node else find_node nodes token)"
  by (simp_all add: find_node_def)

lemma heads_comment:
  "find_node COMPILED_HEADS ''comment'' =
     Some (ScopeNode ''comment''
             [ScopeNode ''line''
                [ScopeNode ''double-slash'' [], ScopeNode ''double-dash'' [],
                 ScopeNode ''number-sign'' [], ScopeNode ''percentage'' [],
                 ScopeNode ''semi-colon'' []],
              ScopeNode ''block'' [ScopeNode ''documentation'' []]])"
  by (simp add: find_node_def COMPILED_HEADS_def)


lemma demo_browse_line:
  "browse COMPILED_HEADS 0 [''comment'', ''line''] =
     Walked [ScopeNode ''double-slash'' [], ScopeNode ''double-dash'' [],
             ScopeNode ''number-sign'' [], ScopeNode ''percentage'' [],
             ScopeNode ''semi-colon'' []]"
  by (simp add: heads_comment find_node_simps)


lemma demo_prefix_line:
  "remdups (map (\<lambda>point. rpartition_last CHR '' '' (line_prefix demo_view_line point)) [0])
     = [''comment.line.'']"
  by (simp add: demo_view_line_def demo_view_def line_prefix_def rpartition_last_def)


lemma demo_split:
  "split CHR ''.'' ''source.demo'' = [''source'', ''demo'']"
  "split CHR ''.'' ''comment.foo.bar'' = [''comment'', ''foo'', ''bar'']"
  "split CHR ''.'' ''comment.line.'' = [''comment'', ''line'', []]"
  "split CHR ''.'' ''sou'' = [''sou'']"
  by (simp_all add: split_def)

lemma demo_base:
  "complete_base_scope ''PackageDev'' demo_view demo_listener ''bar''
     = ([\<lparr>trigger = ''demo'', annotation = ''base suffix'', kind = KIND_SCOPE, details = []\<rparr>],
        demo_listener\<lparr>base_suffix := Some ''demo''\<rparr>)"
  "complete_base_scope ''PackageDev'' demo_view_line demo_listener []
     = ([\<lparr>trigger = ''demo'', annotation = ''base suffix'', kind = KIND_SCOPE, details = []\<rparr>],
        demo_listener\<lparr>base_suffix := Some ''demo''\<rparr>)"
  by (simp_all add: complete_base_scope_def demo_view_line_def demo_view_def rpartition_last_def
        format_completions_def Let_def)


lemma demo_scope_line:
  "complete_scope ''PackageDev'' COMPILED_HEADS node_completions demo_view_line demo_listener [0]
     = Inr (Some (node_completions [ScopeNode ''double-slash'' [], ScopeNode ''double-dash'' [],
               ScopeNode ''number-sign'' [], ScopeNode ''percentage'' [],
               ScopeNode ''semi-colon'' []]
               @ [\<lparr>trigger = ''demo'', annotation = ''base suffix'', kind = KIND_SCOPE,
                      details = []\<rparr>]),
            demo_listener\<lparr>base_suffix := Some ''demo''\<rparr>)"
  using complete_scope_dotted [OF demo_prefix_line, of "''PackageDev''" demo_listener _ _
         COMPILED_HEADS node_completions] demo_base(2) demo_browse_line
  by (simp add: demo_split)









end
